theory Spec2Isabelle
  imports Main "HOL-Library.Log_Nat" "HOL-Library.Sublist"
begin

section \<open>Numbers: Go's float64 and int64\<close>

text \<open>
  The interpreter computes with Go's \<open>float64\<close>. A value is a finite number (a rational
  that round-to-nearest-even has produced; \<open>Finite 0\<close> is +0), the negative zero, an
  infinity or NaN. Every arithmetic result goes through \<open>round64\<close>, the IEEE 754 binary64
  rounding (53-bit significand, exponents of the least bit from -1074 to 971, ties to
  even, overflow to infinity).
\<close>

datatype float64 = Finite rat | NegZero | PosInf | NegInf | NaN

definition pow2 :: "int \<Rightarrow> rat" where
  "pow2 k = (if 0 \<le> k then 2 ^ nat k else 1 / 2 ^ nat (- k))"

text \<open>For \<open>r > 0\<close>: the exponent \<open>k\<close> with \<open>2^k \<le> r < 2^(k+1)\<close>.\<close>

definition ilog2 :: "rat \<Rightarrow> int" where
  "ilog2 r = (let (p, q) = quotient_of r; k = bitlen p - bitlen q
              in if pow2 k \<le> r then k else k - 1)"

definition round_half_even :: "rat \<Rightarrow> int" where
  "round_half_even x =
     (let f = \<lfloor>x\<rfloor>; d = x - of_int f
      in if d < 1 / 2 then f
         else if 1 / 2 < d then f + 1
         else if even f then f else f + 1)"

text \<open>
  The magnitude of the binary64 nearest to \<open>r > 0\<close>, or \<open>None\<close> when it rounds beyond
  the largest finite value.
\<close>

definition round_mag :: "rat \<Rightarrow> rat option" where
  "round_mag r =
     (let e = max (ilog2 r - 52) (- 1074);
          m = round_half_even (r / pow2 e);
          x = of_int m * pow2 e
      in if pow2 1024 \<le> x then None else Some x)"

definition round64 :: "rat \<Rightarrow> float64" where
  "round64 r =
     (if r = 0 then Finite 0
      else if 0 < r then
        (case round_mag r of None \<Rightarrow> PosInf | Some x \<Rightarrow> Finite x)
      else
        (case round_mag (- r) of None \<Rightarrow> NegInf
         | Some x \<Rightarrow> if x = 0 then NegZero else Finite (- x)))"

fun fneg :: "float64 \<Rightarrow> float64" where
  "fneg (Finite r) = (if r = 0 then NegZero else Finite (- r))"
| "fneg NegZero = Finite 0"
| "fneg PosInf = NegInf"
| "fneg NegInf = PosInf"
| "fneg NaN = NaN"

text \<open>The sign bit of a value that is not NaN.\<close>

fun fsign :: "float64 \<Rightarrow> bool" where
  "fsign (Finite r) = (r < 0)"
| "fsign NegZero = True"
| "fsign PosInf = False"
| "fsign NegInf = True"
| "fsign NaN = False"

fun is_zero :: "float64 \<Rightarrow> bool" where
  "is_zero (Finite r) = (r = 0)"
| "is_zero NegZero = True"
| "is_zero _ = False"

fun is_inf :: "float64 \<Rightarrow> bool" where
  "is_inf PosInf = True"
| "is_inf NegInf = True"
| "is_inf _ = False"

text \<open>The number a finite value stands for.\<close>

fun rat_of :: "float64 \<Rightarrow> rat" where
  "rat_of (Finite r) = r"
| "rat_of _ = 0"

text \<open>Go's \<open>a + b\<close> on float64.\<close>

definition fadd :: "float64 \<Rightarrow> float64 \<Rightarrow> float64" where
  "fadd a b =
     (if a = NaN \<or> b = NaN then NaN
      else if is_inf a then (if is_inf b \<and> a \<noteq> b then NaN else a)
      else if is_inf b then b
      else if is_zero a \<and> is_zero b then (if fsign a \<and> fsign b then NegZero else Finite 0)
      else round64 (rat_of a + rat_of b))"

text \<open>Go's \<open>a - b\<close>.\<close>

definition fsub :: "float64 \<Rightarrow> float64 \<Rightarrow> float64" where
  "fsub a b = fadd a (fneg b)"

text \<open>Go's \<open>a * b\<close>.\<close>

definition fmul :: "float64 \<Rightarrow> float64 \<Rightarrow> float64" where
  "fmul a b =
     (if a = NaN \<or> b = NaN then NaN
      else if is_inf a \<or> is_inf b then
        (if is_zero a \<or> is_zero b then NaN
         else if fsign a \<noteq> fsign b then NegInf else PosInf)
      else if is_zero a \<or> is_zero b then (if fsign a \<noteq> fsign b then NegZero else Finite 0)
      else round64 (rat_of a * rat_of b))"

text \<open>Go's \<open>a / b\<close>, zero divisors included.\<close>

definition fdiv :: "float64 \<Rightarrow> float64 \<Rightarrow> float64" where
  "fdiv a b =
     (if a = NaN \<or> b = NaN then NaN
      else if is_inf a then
        (if is_inf b then NaN else if fsign a \<noteq> fsign b then NegInf else PosInf)
      else if is_inf b then (if fsign a \<noteq> fsign b then NegZero else Finite 0)
      else if is_zero b then
        (if is_zero a then NaN else if fsign a \<noteq> fsign b then NegInf else PosInf)
      else if is_zero a then (if fsign a \<noteq> fsign b then NegZero else Finite 0)
      else round64 (rat_of a / rat_of b))"

text \<open>Go's \<open>a == b\<close>: NaN equals nothing, the two zeros are equal.\<close>

definition feq :: "float64 \<Rightarrow> float64 \<Rightarrow> bool" where
  "feq a b =
     (if a = NaN \<or> b = NaN then False
      else if is_zero a then is_zero b
      else a = b)"

text \<open>
  Go's \<open>int64(v)\<close>: the fraction is discarded (truncation toward zero). When the result
  does not fit into an int64, or \<open>v\<close> is an infinity or NaN, the Go specification leaves
  the value to the implementation; the model takes the amd64 result, the smallest int64.
\<close>

definition trunc_rat :: "rat \<Rightarrow> int" where
  "trunc_rat r = (if 0 \<le> r then \<lfloor>r\<rfloor> else - \<lfloor>- r\<rfloor>)"

definition int64_min :: int where
  "int64_min = - (2 ^ 63)"

definition int64_max :: int where
  "int64_max = 2 ^ 63 - 1"

fun int64_of :: "float64 \<Rightarrow> int" where
  "int64_of (Finite r) =
     (if int64_min \<le> trunc_rat r \<and> trunc_rat r \<le> int64_max then trunc_rat r else int64_min)"
| "int64_of NegZero = 0"
| "int64_of _ = int64_min"

text \<open>Go's \<open>float64(n)\<close> for an int64 \<open>n\<close>.\<close>

definition float64_of :: "int \<Rightarrow> float64" where
  "float64_of n = round64 (of_int n)"

text \<open>The source's \<open>float64(int64(val))\<close>.\<close>

definition truncate64 :: "float64 \<Rightarrow> float64" where
  "truncate64 v = float64_of (int64_of v)"

section \<open>Text\<close>

text \<open>
  A line is a sequence of runes; the model covers the runes U+0000 to U+00FF, one
  \<open>char\<close> each. The three predicates are Go's \<open>unicode.IsSpace\<close>, \<open>unicode.IsDigit\<close>
  and \<open>unicode.IsLetter\<close> on that range.
\<close>

definition IsSpace :: "char \<Rightarrow> bool" where
  "IsSpace c = (let n = (of_char c :: nat)
                in (9 \<le> n \<and> n \<le> 13) \<or> n = 32 \<or> n = 133 \<or> n = 160)"

definition IsDigit :: "char \<Rightarrow> bool" where
  "IsDigit c = (let n = (of_char c :: nat) in 48 \<le> n \<and> n \<le> 57)"

definition IsLetter :: "char \<Rightarrow> bool" where
  "IsLetter c = (let n = (of_char c :: nat)
                 in (65 \<le> n \<and> n \<le> 90) \<or> (97 \<le> n \<and> n \<le> 122) \<or>
                    n = 170 \<or> n = 181 \<or> n = 186 \<or>
                    (192 \<le> n \<and> n \<le> 214) \<or> (216 \<le> n \<and> n \<le> 246) \<or> 248 \<le> n)"

text \<open>\<open>strings.TrimSpace\<close>.\<close>

definition TrimSpace :: "string \<Rightarrow> string" where
  "TrimSpace s = rev (dropWhile IsSpace (rev (dropWhile IsSpace s)))"

text \<open>\<open>strings.HasPrefix\<close> and \<open>strings.HasSuffix\<close>.\<close>

definition HasPrefix :: "string \<Rightarrow> string \<Rightarrow> bool" where
  "HasPrefix s p = (take (length p) s = p)"

definition HasSuffix :: "string \<Rightarrow> string \<Rightarrow> bool" where
  "HasSuffix s p = (length p \<le> length s \<and> drop (length s - length p) s = p)"

text \<open>\<open>strings.Index\<close>: the position of the first occurrence, \<open>None\<close> for Go's -1.\<close>

fun Index :: "string \<Rightarrow> string \<Rightarrow> nat option" where
  "Index [] p = (if p = [] then Some 0 else None)"
| "Index (c # cs) p =
     (if HasPrefix (c # cs) p then Some 0
      else (case Index cs p of None \<Rightarrow> None | Some i \<Rightarrow> Some (Suc i)))"

text \<open>\<open>strings.Contains\<close>.\<close>

definition Contains :: "string \<Rightarrow> string \<Rightarrow> bool" where
  "Contains s p = (Index s p \<noteq> None)"

text \<open>
  \<open>strings.SplitN(s, sep, 2)\<close> for a separator that occurs in \<open>s\<close>: the text before its
  first occurrence and the text after it. The source calls it only after
  \<open>strings.Contains(s, sep)\<close>; without an occurrence Go returns \<open>s\<close> alone.
\<close>

definition SplitN2 :: "string \<Rightarrow> string \<Rightarrow> string \<times> string" where
  "SplitN2 s sep =
     (case Index s sep of
        None \<Rightarrow> (s, [])
      | Some i \<Rightarrow> (take i s, drop (i + length sep) s))"

text \<open>\<open>strings.Split(s, ",")\<close>.\<close>

fun Split_comma :: "string \<Rightarrow> string list" where
  "Split_comma [] = [[]]"
| "Split_comma (c # cs) =
     (if c = CHR '','' then [] # Split_comma cs
      else (case Split_comma cs of
              [] \<Rightarrow> [[c]]
            | w # ws \<Rightarrow> (c # w) # ws))"

section \<open>The store\<close>

record Variable =
  isInt :: bool
  value' :: float64

record Function =
  params :: "string list"
  expression :: string

text \<open>
  What the program writes to standard output, one entry per line written. The Russian
  texts are not reproduced: each entry names the statement of the source that prints it
  and carries the values it formats.
\<close>

datatype ParseError =
    BadNumber string
  | CallParenExpected
  | ArityMismatch string nat nat
  | ParenExpected
  | UnexpectedToken string

datatype Output =
    UndeclaredFunction string
  | UndeclaredVariable string
  | FunctionEvalError ParseError
  | ExpressionEvalError ParseError
  | VariableListHeader
  | VariableList "string \<rightharpoonup> Variable"
  | PrintInt string int
  | PrintFloat string float64
  | NotDeclared string
  | BadFunctionFormat string
  | BadInitFormat string
  | UnknownType string
  | CannotParse string

text \<open>
  The global maps \<open>variables\<close> and \<open>functions\<close>, and the standard output written so
  far. The maps hold pointers in the source; no pointer is kept across an update of the
  map entry it came from, so the model stores the structs themselves.
\<close>

record Globals =
  variables :: "string \<rightharpoonup> Variable"
  "functions" :: "string \<rightharpoonup> Function"
  stdout :: "Output list"

definition println :: "Output \<Rightarrow> Globals \<Rightarrow> Globals" where
  "println x g = g\<lparr>stdout := stdout g @ [x]\<rparr>"

definition setVariable :: "string \<Rightarrow> bool \<Rightarrow> float64 \<Rightarrow> Globals \<Rightarrow> Globals" where
  "setVariable name isInt0 val g =
     (case variables g name of
        Some v \<Rightarrow>
          (let isInt1 = isInt v
           in if isInt1
              then g\<lparr>variables := (variables g)(name \<mapsto> v\<lparr>value' := truncate64 val\<rparr>)\<rparr>
              else g\<lparr>variables := (variables g)(name \<mapsto> v\<lparr>value' := val\<rparr>)\<rparr>)
      | None \<Rightarrow>
          (let val1 = (if isInt0 then truncate64 val else val)
           in g\<lparr>variables := (variables g)(name \<mapsto> \<lparr>isInt = isInt0, value' = val1\<rparr>)\<rparr>))"

definition getVariable :: "string \<Rightarrow> Globals \<Rightarrow> Variable option" where
  "getVariable name g = variables g name"

definition setFunction :: "string \<Rightarrow> string list \<Rightarrow> string \<Rightarrow> Globals \<Rightarrow> Globals" where
  "setFunction name ps expr g =
     g\<lparr>functions := (functions g)(name \<mapsto> \<lparr>params = ps, expression = expr\<rparr>)\<rparr>"

definition getFunction :: "string \<Rightarrow> Globals \<Rightarrow> Function option" where
  "getFunction name g = functions g name"

section \<open>The lexer\<close>

datatype TokenType =
    TokenNumber | TokenIdent | TokenPlus | TokenMinus | TokenStar | TokenSlash
  | TokenLParen | TokenRParen | TokenComma | TokenEOF | TokenError

text \<open>The fields \<open>typ\<close> and \<open>value\<close> of the source's \<open>Token\<close>.\<close>

record Token =
  typ' :: TokenType
  tvalue :: string

record Lexer =
  input :: string
  pos :: nat

definition NewLexer :: "string \<Rightarrow> Lexer" where
  "NewLexer s = \<lparr>input = s, pos = 0\<rparr>"

definition nextRune :: "Lexer \<Rightarrow> char \<times> Lexer" where
  "nextRune l =
     (if length (input l) \<le> pos l then (CHR 0x00, l)
      else (input l ! pos l, l\<lparr>pos := pos l + 1\<rparr>))"

definition peekRune :: "Lexer \<Rightarrow> char" where
  "peekRune l = (if length (input l) \<le> pos l then CHR 0x00 else input l ! pos l)"

text \<open>The loop that skips white space at the start of \<open>NextToken\<close>.\<close>

function skipSpaces :: "Lexer \<Rightarrow> Lexer" where
  "skipSpaces l = (if IsSpace (peekRune l) then skipSpaces (snd (nextRune l)) else l)"
  by pat_completeness auto
termination
  by (relation "measure (\<lambda>l. length (input l) - pos l)")
     (auto simp: peekRune_def nextRune_def IsSpace_def split: if_splits)

text \<open>The loop over the digits and the first \<open>.\<close> of a number; \<open>dotCount\<close> as in the source.\<close>

function scanNumber :: "Lexer \<Rightarrow> nat \<Rightarrow> Lexer" where
  "scanNumber l dotCount =
     (if IsDigit (peekRune l) \<or> peekRune l = CHR ''.'' then
        (if peekRune l = CHR ''.'' then
           (if 1 < dotCount + 1 then l
            else scanNumber (snd (nextRune l)) (dotCount + 1))
         else scanNumber (snd (nextRune l)) dotCount)
      else l)"
  by pat_completeness auto
termination
  by (relation "measure (\<lambda>(l, d). length (input l) - pos l)")
     (auto simp: peekRune_def nextRune_def IsDigit_def split: if_splits)

text \<open>The loop over the letters, digits and underscores of an identifier.\<close>

function scanIdent :: "Lexer \<Rightarrow> Lexer" where
  "scanIdent l =
     (if IsLetter (peekRune l) \<or> IsDigit (peekRune l) \<or> peekRune l = CHR ''_''
      then scanIdent (snd (nextRune l)) else l)"
  by pat_completeness auto
termination
  by (relation "measure (\<lambda>l. length (input l) - pos l)")
     (auto simp: peekRune_def nextRune_def IsDigit_def IsLetter_def split: if_splits)

text \<open>\<open>string(l.input[startPos:l.pos])\<close>.\<close>

definition slice :: "string \<Rightarrow> nat \<Rightarrow> nat \<Rightarrow> string" where
  "slice s i j = take (j - i) (drop i s)"

definition NextToken :: "Lexer \<Rightarrow> Token \<times> Lexer" where
  "NextToken l0 =
     (let l = skipSpaces l0; r = peekRune l
      in if r = CHR 0x00 then (\<lparr>typ' = TokenEOF, tvalue = []\<rparr>, l)
         else if r = CHR ''+'' then (\<lparr>typ' = TokenPlus, tvalue = ''+''\<rparr>, snd (nextRune l))
         else if r = CHR ''-'' then (\<lparr>typ' = TokenMinus, tvalue = ''-''\<rparr>, snd (nextRune l))
         else if r = CHR ''*'' then (\<lparr>typ' = TokenStar, tvalue = ''*''\<rparr>, snd (nextRune l))
         else if r = CHR ''/'' then (\<lparr>typ' = TokenSlash, tvalue = ''/''\<rparr>, snd (nextRune l))
         else if r = CHR ''('' then (\<lparr>typ' = TokenLParen, tvalue = ''(''\<rparr>, snd (nextRune l))
         else if r = CHR '')'' then (\<lparr>typ' = TokenRParen, tvalue = '')''\<rparr>, snd (nextRune l))
         else if r = CHR '','' then (\<lparr>typ' = TokenComma, tvalue = '',''\<rparr>, snd (nextRune l))
         else if IsDigit r then
           (let startPos = pos l; l1 = scanNumber l 0
            in (\<lparr>typ' = TokenNumber, tvalue = slice (input l1) startPos (pos l1)\<rparr>, l1))
         else if IsLetter r \<or> r = CHR ''_'' then
           (let startPos = pos l; l1 = scanIdent l
            in (\<lparr>typ' = TokenIdent, tvalue = slice (input l1) startPos (pos l1)\<rparr>, l1))
         else (\<lparr>typ' = TokenError, tvalue = [r]\<rparr>, l))"

section \<open>The parser\<close>

text \<open>
  \<open>errMsg\<close> is a string in the source, empty while no error has been recorded; every
  message the source stores is a non-empty text. The model has \<open>None\<close> for the empty
  string and names the message otherwise.
\<close>

record Parser =
  lexer :: Lexer
  curr :: Token
  errMsg :: "ParseError option"

text \<open>\<open>p.next()\<close>.\<close>

definition next' :: "Parser \<Rightarrow> Parser" where
  "next' p = (let (t, l) = NextToken (lexer p) in p\<lparr>lexer := l, curr := t\<rparr>)"

definition NewParser :: "string \<Rightarrow> Parser" where
  "NewParser s =
     next' \<lparr>lexer = NewLexer s, curr = \<lparr>typ' = TokenNumber, tvalue = []\<rparr>, errMsg = None\<rparr>"

text \<open>\<open>p.error(msg)\<close>.\<close>

definition error :: "ParseError \<Rightarrow> Parser \<Rightarrow> Parser" where
  "error msg p = p\<lparr>errMsg := Some msg\<rparr>"

text \<open>
  \<open>strconv.ParseFloat(s, 64)\<close> on the texts a number token can carry: decimal digits
  with at most one \<open>.\<close>. The result is the nearest float64; \<open>None\<close> is Go's error,
  returned when the text has no digit or a character that is neither a digit nor the
  one \<open>.\<close> (a syntax error), or when the number rounds beyond the largest float64 (a
  range error). Signs, exponents and the other forms Go accepts cannot occur in a number
  token and are not modelled.
\<close>

definition digits_value :: "string \<Rightarrow> int" where
  "digits_value ds = foldl (\<lambda>a c. 10 * a + (of_char c - 48)) 0 ds"

definition ParseFloat :: "string \<Rightarrow> float64 option" where
  "ParseFloat s =
     (let ip = takeWhile (\<lambda>c. c \<noteq> CHR ''.'') s;
          fp = drop (length ip + 1) s
      in if (ip = [] \<and> fp = []) \<or> \<not> list_all IsDigit ip \<or> \<not> list_all IsDigit fp
         then None
         else (case round64 (of_int (digits_value (ip @ fp)) / 10 ^ length fp) of
                 PosInf \<Rightarrow> None
               | f \<Rightarrow> Some f))"

text \<open>
  The first loop of \<open>evaluateFunction\<close>: for each parameter, in order, a copy of the
  variable of that name (when there is one) goes into \<open>backup\<close>, and \<open>setVariable\<close> is
  called with the type taken from the argument. \<open>None\<close> is the panic of \<open>args[i]\<close> out
  of range; the one caller has compared the two lengths before.
\<close>

fun bindParams ::
  "string list \<Rightarrow> float64 list \<Rightarrow> (string \<rightharpoonup> Variable) \<Rightarrow> Globals
     \<Rightarrow> ((string \<rightharpoonup> Variable) \<times> Globals) option" where
  "bindParams [] args backup g = Some (backup, g)"
| "bindParams (paramName # ps) [] backup g = None"
| "bindParams (paramName # ps) (a # args) backup g =
     (let backup1 = (case getVariable paramName g of
                       Some orig \<Rightarrow> backup(paramName \<mapsto> \<lparr>isInt = isInt orig, value' = value' orig\<rparr>)
                     | None \<Rightarrow> backup);
          isInteger = feq (truncate64 a) a
      in bindParams ps args backup1 (setVariable paramName isInteger a g))"

text \<open>The last loop of \<open>evaluateFunction\<close>: delete each parameter, then put its backup back.\<close>

fun restoreParams :: "string list \<Rightarrow> (string \<rightharpoonup> Variable) \<Rightarrow> Globals \<Rightarrow> Globals" where
  "restoreParams [] backup g = g"
| "restoreParams (paramName # ps) backup g =
     (let g1 = g\<lparr>variables := (variables g)(paramName := None)\<rparr>;
          g2 = (case backup paramName of
                  Some bkp \<Rightarrow> g1\<lparr>variables := (variables g1)(paramName \<mapsto> bkp)\<rparr>
                | None \<Rightarrow> g1)
      in restoreParams ps backup g2)"

text \<open>
  The recursive descent. A call of a function parses the function's text again, so the
  recursion need not end (\<open>f(x): f(x)\<close>): the model bounds the depth of the nested
  calls by a number \<open>n\<close>, and \<open>None\<close> says that the bound was reached (or that
  \<open>bindParams\<close> panicked). Each function of the source is written once, as a
  definition \<open>..._body\<close> whose first arguments are the functions it calls; \<open>level n\<close>
  then holds the functions that may nest \<open>n\<close> calls deep, and \<open>parseExpression n\<close>,
  \<open>parseTerm n\<close>, ... are its fields. \<open>exprLoop\<close>, \<open>termLoop\<close> and \<open>parseArgs\<close> are
  the loops of \<open>parseExpression\<close>, \<open>parseTerm\<close> and of the call branch of
  \<open>parseFactor\<close>.
\<close>

type_synonym result = "(float64 \<times> Parser \<times> Globals) option"

type_synonym parse = "Parser \<Rightarrow> Globals \<Rightarrow> result"

type_synonym loop = "float64 \<Rightarrow> Parser \<Rightarrow> Globals \<Rightarrow> result"

type_synonym args_loop =
  "float64 list \<Rightarrow> Parser \<Rightarrow> Globals \<Rightarrow> (float64 list \<times> Parser \<times> Globals) option"

type_synonym call = "Function \<Rightarrow> float64 list \<Rightarrow> Globals \<Rightarrow> (float64 \<times> Globals) option"

definition parseExpression_body :: "parse \<Rightarrow> loop \<Rightarrow> parse" where
  "parseExpression_body parseTerm0 exprLoop0 p g =
     (case parseTerm0 p g of
        None \<Rightarrow> None
      | Some (val, p1, g1) \<Rightarrow> exprLoop0 val p1 g1)"

definition exprLoop_body :: "parse \<Rightarrow> loop \<Rightarrow> loop" where
  "exprLoop_body parseTerm0 exprLoop0 val p g =
     (if typ' (curr p) = TokenPlus \<or> typ' (curr p) = TokenMinus then
        (let op = typ' (curr p); p1 = next' p
         in case parseTerm0 p1 g of
              None \<Rightarrow> None
            | Some (right, p2, g2) \<Rightarrow>
                exprLoop0 (if op = TokenPlus then fadd val right else fsub val right) p2 g2)
      else Some (val, p, g))"

definition parseTerm_body :: "parse \<Rightarrow> loop \<Rightarrow> parse" where
  "parseTerm_body parseFactor0 termLoop0 p g =
     (case parseFactor0 p g of
        None \<Rightarrow> None
      | Some (val, p1, g1) \<Rightarrow> termLoop0 val p1 g1)"

text \<open>One step of the loop of \<open>parseTerm\<close>: \<open>val *= right\<close>, or the division.\<close>

definition mulDiv :: "TokenType \<Rightarrow> float64 \<Rightarrow> float64 \<Rightarrow> float64" where
  "mulDiv op val right =
     (if op = TokenStar then fmul val right
      else if feq right (Finite 0) then fdiv val (Finite 0)
      else fdiv val right)"

definition termLoop_body :: "parse \<Rightarrow> loop \<Rightarrow> loop" where
  "termLoop_body parseFactor0 termLoop0 val p g =
     (if typ' (curr p) = TokenStar \<or> typ' (curr p) = TokenSlash then
        (let op = typ' (curr p); p1 = next' p
         in case parseFactor0 p1 g of
              None \<Rightarrow> None
            | Some (right, p2, g2) \<Rightarrow> termLoop0 (mulDiv op val right) p2 g2)
      else Some (val, p, g))"

text \<open>
  The call branch of \<open>parseFactor\<close> from the closing parenthesis on: \<open>p\<close> and \<open>g\<close> are
  the parser and the globals after the arguments \<open>args\<close> have been read.
\<close>

definition finishCall :: "call \<Rightarrow> string \<Rightarrow> float64 list \<Rightarrow> parse" where
  "finishCall evaluateFunction0 identName args p g =
     (if typ' (curr p) \<noteq> TokenRParen
      then Some (Finite 0, error CallParenExpected p, g)
      else
        (let p1 = next' p
         in case getFunction identName g of
              None \<Rightarrow> Some (Finite 0, p1, println (UndeclaredFunction identName) g)
            | Some fn \<Rightarrow>
                if length (params fn) \<noteq> length args
                then Some (Finite 0,
                       error (ArityMismatch identName (length (params fn)) (length args)) p1,
                       g)
                else (case evaluateFunction0 fn args g of
                        None \<Rightarrow> None
                      | Some (v, g1) \<Rightarrow> Some (v, p1, g1))))"

definition parseFactor_body :: "parse \<Rightarrow> args_loop \<Rightarrow> call \<Rightarrow> parse" where
  "parseFactor_body parseExpression0 parseArgs0 evaluateFunction0 p g =
     (case typ' (curr p) of
        TokenNumber \<Rightarrow>
          (case ParseFloat (tvalue (curr p)) of
             None \<Rightarrow> Some (Finite 0, error (BadNumber (tvalue (curr p))) p, g)
           | Some f \<Rightarrow> Some (f, next' p, g))
      | TokenIdent \<Rightarrow>
          (let identName = tvalue (curr p); p1 = next' p
           in if typ' (curr p1) = TokenLParen then
                (let p2 = next' p1
                 in case (if typ' (curr p2) \<noteq> TokenRParen then parseArgs0 [] p2 g
                          else Some ([], p2, g)) of
                      None \<Rightarrow> None
                    | Some (args, p3, g3) \<Rightarrow>
                        finishCall evaluateFunction0 identName args p3 g3)
              else
                (case getVariable identName g of
                   None \<Rightarrow> Some (Finite 0, p1, println (UndeclaredVariable identName) g)
                 | Some v \<Rightarrow> Some (value' v, p1, g)))
      | TokenLParen \<Rightarrow>
          (let p1 = next' p
           in case parseExpression0 p1 g of
                None \<Rightarrow> None
              | Some (val, p2, g2) \<Rightarrow>
                  if typ' (curr p2) \<noteq> TokenRParen
                  then Some (val, error ParenExpected p2, g2)
                  else Some (val, next' p2, g2))
      | _ \<Rightarrow> Some (Finite 0, error (UnexpectedToken (tvalue (curr p))) p, g))"

definition parseArgs_body :: "parse \<Rightarrow> args_loop \<Rightarrow> args_loop" where
  "parseArgs_body parseExpression0 parseArgs0 args p g =
     (case parseExpression0 p g of
        None \<Rightarrow> None
      | Some (argVal, p1, g1) \<Rightarrow>
          (let args1 = args @ [argVal]
           in if typ' (curr p1) = TokenComma then parseArgs0 args1 (next' p1) g1
              else Some (args1, p1, g1)))"

definition evaluateFunction_body :: "parse \<Rightarrow> call" where
  "evaluateFunction_body parseExpression0 fn args g =
     (case bindParams (params fn) args Map.empty g of
        None \<Rightarrow> None
      | Some (backup, g1) \<Rightarrow>
          (case parseExpression0 (NewParser (expression fn)) g1 of
             None \<Rightarrow> None
           | Some (val, p, g2) \<Rightarrow>
               (let g3 = (case errMsg p of
                            Some msg \<Rightarrow> println (FunctionEvalError msg) g2
                          | None \<Rightarrow> g2)
                in Some (val, restoreParams (params fn) backup g3))))"

record Callees =
  cExpression :: parse
  cExprLoop :: loop
  cTerm :: parse
  cTermLoop :: loop
  cFactor :: parse
  cArgs :: args_loop
  cFunction :: call

primrec level :: "nat \<Rightarrow> Callees" where
  "level 0 =
     \<lparr>cExpression = (\<lambda>p g. None), cExprLoop = (\<lambda>val p g. None), cTerm = (\<lambda>p g. None),
      cTermLoop = (\<lambda>val p g. None), cFactor = (\<lambda>p g. None), cArgs = (\<lambda>args p g. None),
      cFunction = (\<lambda>fn args g. None)\<rparr>"
| "level (Suc n) =
     \<lparr>cExpression = parseExpression_body (cTerm (level n)) (cExprLoop (level n)),
      cExprLoop = exprLoop_body (cTerm (level n)) (cExprLoop (level n)),
      cTerm = parseTerm_body (cFactor (level n)) (cTermLoop (level n)),
      cTermLoop = termLoop_body (cFactor (level n)) (cTermLoop (level n)),
      cFactor = parseFactor_body (cExpression (level n)) (cArgs (level n)) (cFunction (level n)),
      cArgs = parseArgs_body (cExpression (level n)) (cArgs (level n)),
      cFunction = evaluateFunction_body (cExpression (level n))\<rparr>"

definition parseExpression :: "nat \<Rightarrow> parse" where
  "parseExpression n = cExpression (level n)"

definition exprLoop :: "nat \<Rightarrow> loop" where
  "exprLoop n = cExprLoop (level n)"

definition parseTerm :: "nat \<Rightarrow> parse" where
  "parseTerm n = cTerm (level n)"

definition termLoop :: "nat \<Rightarrow> loop" where
  "termLoop n = cTermLoop (level n)"

definition parseFactor :: "nat \<Rightarrow> parse" where
  "parseFactor n = cFactor (level n)"

definition parseArgs :: "nat \<Rightarrow> args_loop" where
  "parseArgs n = cArgs (level n)"

definition evaluateFunction :: "nat \<Rightarrow> call" where
  "evaluateFunction n = cFunction (level n)"

text \<open>
  \<open>evaluateExpression\<close>: the value and the flag \<open>ok\<close>; \<open>None\<close> when the evaluation
  does not return within the bound.
\<close>

definition evaluateExpression :: "nat \<Rightarrow> string \<Rightarrow> Globals \<Rightarrow> ((float64 \<times> bool) \<times> Globals) option" where
  "evaluateExpression n expr g =
     (case parseExpression n (NewParser expr) g of
        None \<Rightarrow> None
      | Some (val, p, g1) \<Rightarrow>
          (case errMsg p of
             Some msg \<Rightarrow> Some ((Finite 0, False), println (ExpressionEvalError msg) g1)
           | None \<Rightarrow> Some ((val, True), g1)))"

section \<open>The statements\<close>

text \<open>
  The start of \<open>processLine\<close>: the line without the white space around it and without
  one \<open>;\<close> at its end.
\<close>

definition normalize :: "string \<Rightarrow> string" where
  "normalize line0 =
     (let line = TrimSpace line0
      in TrimSpace (if HasSuffix line '';'' then take (length line - 1) line else line))"

text \<open>The branch of \<open>processLine\<close> for a line that starts with \<open>print\<close>.\<close>

definition printStatement :: "string \<Rightarrow> Globals \<Rightarrow> Globals option" where
  "printStatement line g =
     (let rest = TrimSpace (drop (length ''print'') line)
      in if rest = [] then
           Some (println (VariableList (variables g)) (println VariableListHeader g))
         else
           (case TrimSpace rest of
              [] \<Rightarrow> None
            | r0 # rs \<Rightarrow>
                (let varName = (if r0 = CHR ''='' then TrimSpace rs else r0 # rs)
                 in case getVariable varName g of
                      Some v \<Rightarrow>
                        if isInt v
                        then Some (println (PrintInt varName (int64_of (value' v))) g)
                        else Some (println (PrintFloat varName (value' v)) g)
                    | None \<Rightarrow> Some (println (NotDeclared varName) g))))"

text \<open>The branch for a line with a \<open>:\<close>, the definition of a function.\<close>

definition functionStatement :: "string \<Rightarrow> Globals \<Rightarrow> Globals option" where
  "functionStatement line g =
     (let parts = SplitN2 line '':'';
          left = TrimSpace (fst parts);
          right = TrimSpace (snd parts)
      in case (Index left ''('', Index left '')'') of
           (Some idxOpenParen, Some idxCloseParen) \<Rightarrow>
             if idxCloseParen < idxOpenParen then Some (println (BadFunctionFormat line) g)
             else
               (let funcName = TrimSpace (take idxOpenParen left);
                    paramsStr = TrimSpace (slice left (idxOpenParen + 1) idxCloseParen);
                    paramNames = (if paramsStr \<noteq> [] then map TrimSpace (Split_comma paramsStr)
                                  else [])
                in Some (setFunction funcName paramNames right g))
         | _ \<Rightarrow> Some (println (BadFunctionFormat line) g))"

text \<open>The branch for a line with \<open>)=\<close>, the initialization with a type.\<close>

definition initStatement :: "nat \<Rightarrow> string \<Rightarrow> Globals \<Rightarrow> Globals option" where
  "initStatement n line g =
     (let parts = SplitN2 line '')='';
          left = fst parts;
          right = TrimSpace (snd parts)
      in case Index left ''('' of
           None \<Rightarrow> Some (println (BadInitFormat line) g)
         | Some idxOpenParen \<Rightarrow>
             (let varName = TrimSpace (take idxOpenParen left);
                  typeChar = TrimSpace (drop (idxOpenParen + 1) left)
              in case evaluateExpression n right g of
                   None \<Rightarrow> None
                 | Some ((val, ok), g1) \<Rightarrow>
                     if \<not> ok then Some g1
                     else if typeChar = ''i'' then Some (setVariable varName True val g1)
                     else if typeChar = ''f'' then Some (setVariable varName False val g1)
                     else Some (println (UnknownType typeChar) g1)))"

text \<open>The branch for a line with \<open>=\<close>, the plain assignment.\<close>

definition assignStatement :: "nat \<Rightarrow> string \<Rightarrow> Globals \<Rightarrow> Globals option" where
  "assignStatement n line g =
     (let parts = SplitN2 line ''='';
          varName = TrimSpace (fst parts);
          expr = TrimSpace (snd parts)
      in case evaluateExpression n expr g of
           None \<Rightarrow> None
         | Some ((val, ok), g1) \<Rightarrow>
             if \<not> ok then Some g1
             else
               (case getVariable varName g1 of
                  Some v \<Rightarrow>
                    if isInt v
                    then Some (g1\<lparr>variables := (variables g1)(varName \<mapsto> v\<lparr>value' := truncate64 val\<rparr>)\<rparr>)
                    else Some (g1\<lparr>variables := (variables g1)(varName \<mapsto> v\<lparr>value' := val\<rparr>)\<rparr>)
                | None \<Rightarrow>
                    (let isInt0 = feq (truncate64 val) val
                     in Some (setVariable varName isInt0 val g1))))"

text \<open>
  \<open>processLine\<close>: the globals after the line, \<open>None\<close> when an evaluation does not
  return within the bound \<open>n\<close>.
\<close>

definition processLine :: "nat \<Rightarrow> string \<Rightarrow> Globals \<Rightarrow> Globals option" where
  "processLine n line0 g =
     (if TrimSpace line0 = [] then Some g
      else
        (let line = normalize line0
         in if HasPrefix line ''print'' then printStatement line g
            else if Contains line '':'' then functionStatement line g
            else if Contains line '')='' then initStatement n line g
            else if Contains line ''='' then assignStatement n line g
            else Some (println (CannotParse line) g)))"

text \<open>The loop of \<open>main\<close> over the lines of the file.\<close>

fun processLines :: "nat \<Rightarrow> string list \<Rightarrow> Globals \<Rightarrow> Globals option" where
  "processLines n [] g = Some g"
| "processLines n (line # rest) g =
     (case processLine n line g of
        None \<Rightarrow> None
      | Some g1 \<Rightarrow> processLines n rest g1)"

text \<open>The globals when the program starts: two empty maps, nothing written.\<close>

definition start :: Globals where
  "start = \<lparr>variables = Map.empty, functions = Map.empty, stdout = []\<rparr>"

section \<open>Predicates for the proofs\<close>

text \<open>
  The finite values of a float64: an integer significand of fewer than 54 bits times a
  power of two not below \<open>2^-1074\<close>, of magnitude below \<open>2^1024\<close>.
\<close>

definition is_float64 :: "rat \<Rightarrow> bool" where
  "is_float64 r = (\<exists>m e. \<bar>m\<bar> < 2 ^ 53 \<and> - 1074 \<le> e \<and> r = of_int m * pow2 e \<and> \<bar>r\<bar> < pow2 1024)"

text \<open>
  \<open>pres RP RG f\<close>: whenever the parsing function \<open>f\<close> returns, the parser it leaves is
  related by \<open>RP\<close> to the one it started from, and the globals by \<open>RG\<close>. \<open>step_ok\<close>
  collects what the two relations need for that to hold of the whole recursive descent.
\<close>

definition pres ::
  "(Parser \<Rightarrow> Parser \<Rightarrow> bool) \<Rightarrow> (Globals \<Rightarrow> Globals \<Rightarrow> bool)
     \<Rightarrow> (Parser \<Rightarrow> Globals \<Rightarrow> ('a \<times> Parser \<times> Globals) option) \<Rightarrow> bool" where
  "pres RP RG f = (\<forall>p g v p' g'. f p g = Some (v, p', g') \<longrightarrow> RP p p' \<and> RG g g')"

definition pres_call :: "(Globals \<Rightarrow> Globals \<Rightarrow> bool) \<Rightarrow> call \<Rightarrow> bool" where
  "pres_call RG ef =
     (\<forall>name fn args g v g'. functions g name = Some fn \<longrightarrow> ef fn args g = Some (v, g') \<longrightarrow> RG g g')"

definition step_ok :: "(Parser \<Rightarrow> Parser \<Rightarrow> bool) \<Rightarrow> (Globals \<Rightarrow> Globals \<Rightarrow> bool) \<Rightarrow> bool" where
  "step_ok RP RG =
     ((\<forall>p. RP p p) \<and> (\<forall>p q r. RP p q \<longrightarrow> RP q r \<longrightarrow> RP p r) \<and>
      (\<forall>g. RG g g) \<and> (\<forall>g h k. RG g h \<longrightarrow> RG h k \<longrightarrow> RG g k) \<and>
      (\<forall>p. RP p (next' p)) \<and> (\<forall>m p. RP p (error m p)) \<and>
      (\<forall>x g. RG g (println x g)) \<and>
      (\<forall>name fn args g b g1 g2.
          functions g name = Some fn \<longrightarrow>
          bindParams (params fn) args Map.empty g = Some (b, g1) \<longrightarrow> RG g1 g2 \<longrightarrow>
          RG g (restoreParams (params fn) b g2)))"

definition pres_level :: "(Parser \<Rightarrow> Parser \<Rightarrow> bool) \<Rightarrow> (Globals \<Rightarrow> Globals \<Rightarrow> bool) \<Rightarrow> nat \<Rightarrow> bool" where
  "pres_level RP RG n =
     (pres RP RG (parseExpression n) \<and> (\<forall>val. pres RP RG (exprLoop n val)) \<and>
      pres RP RG (parseTerm n) \<and> (\<forall>val. pres RP RG (termLoop n val)) \<and>
      pres RP RG (parseFactor n) \<and> (\<forall>args. pres RP RG (parseArgs n args)) \<and>
      pres_call RG (evaluateFunction n))"

text \<open>
  The characters the lexer has no token for, in the words of the specification: not white
  space, not an operator, a parenthesis or a comma, not a digit, a letter or an underscore.
\<close>

definition unrecognized :: "char \<Rightarrow> bool" where
  "unrecognized c =
     (\<not> IsSpace c \<and> c \<notin> set ''+-*/(),'' \<and> \<not> IsDigit c \<and> \<not> IsLetter c \<and> c \<noteq> CHR ''_'')"

text \<open>The globals after the line \<open>x = 5\<close>, and after the line \<open>f(a, a): a\<close>.\<close>

definition gx :: Globals where
  "gx = start\<lparr>variables := [''x'' \<mapsto> \<lparr>isInt = True, value' = Finite 5\<rparr>]\<rparr>"

definition gf :: Globals where
  "gf = start\<lparr>functions := [''f'' \<mapsto> \<lparr>params = [''a'', ''a''], expression = ''a''\<rparr>]\<rparr>"

text \<open>The globals after the line \<open>f(a): a\<close>.\<close>

definition f1 :: Globals where
  "f1 = start\<lparr>functions := [''f'' \<mapsto> \<lparr>params = [''a''], expression = ''a''\<rparr>]\<rparr>"




section \<open>The equations of the recursive descent\<close>

lemma parseExpression_0 [simp, code]: "parseExpression 0 p g = None"
  unfolding parseExpression_def by simp

lemma parseExpression_Suc [code]:
  "parseExpression (Suc n) p g =
     parseExpression_body (parseTerm n) (exprLoop n) p g"
  unfolding parseExpression_def parseTerm_def exprLoop_def by simp

lemma exprLoop_0 [simp, code]: "exprLoop 0 val p g = None"
  unfolding exprLoop_def by simp

lemma exprLoop_Suc [code]:
  "exprLoop (Suc n) val p g =
     exprLoop_body (parseTerm n) (exprLoop n) val p g"
  unfolding parseTerm_def exprLoop_def by simp

lemma parseTerm_0 [simp, code]: "parseTerm 0 p g = None"
  unfolding parseTerm_def by simp

lemma parseTerm_Suc [code]:
  "parseTerm (Suc n) p g =
     parseTerm_body (parseFactor n) (termLoop n) p g"
  unfolding parseTerm_def parseFactor_def termLoop_def by simp

lemma termLoop_0 [simp, code]: "termLoop 0 val p g = None"
  unfolding termLoop_def by simp

lemma termLoop_Suc [code]:
  "termLoop (Suc n) val p g =
     termLoop_body (parseFactor n) (termLoop n) val p g"
  unfolding parseFactor_def termLoop_def by simp

lemma parseFactor_0 [simp, code]: "parseFactor 0 p g = None"
  unfolding parseFactor_def by simp

lemma parseFactor_Suc [code]:
  "parseFactor (Suc n) p g =
     parseFactor_body (parseExpression n) (parseArgs n) (evaluateFunction n) p g"
  unfolding parseFactor_def parseExpression_def parseArgs_def evaluateFunction_def by simp

lemma parseArgs_0 [simp, code]: "parseArgs 0 args p g = None"
  unfolding parseArgs_def by simp

lemma parseArgs_Suc [code]:
  "parseArgs (Suc n) args p g =
     parseArgs_body (parseExpression n) (parseArgs n) args p g"
  unfolding parseArgs_def parseExpression_def by simp

lemma evaluateFunction_0 [simp, code]: "evaluateFunction 0 fn args g = None"
  unfolding evaluateFunction_def by simp

lemma evaluateFunction_Suc [code]:
  "evaluateFunction (Suc n) fn args g =
     evaluateFunction_body (parseExpression n) fn args g"
  unfolding evaluateFunction_def parseExpression_def by simp

section \<open>Rounding\<close>

lemma pow2_powi: "pow2 k = 2 powi k"
  by (simp add: pow2_def power_int_def inverse_eq_divide power_one_over)

lemma pow2_pos [simp]: "0 < pow2 k"
  by (simp add: pow2_powi)

lemma pow2_nz [simp]: "pow2 k \<noteq> 0"
  by (simp add: pow2_powi)

lemma floor_numeral_div [simp]:
  "\<lfloor>numeral a / numeral b :: rat\<rfloor> = numeral a div numeral b"
  using floor_divide_of_int_eq[of "numeral a" "numeral b", where ?'a = rat] by simp

lemma pow2_add: "pow2 (a + b) = pow2 a * pow2 b"
  by (simp add: pow2_powi power_int_add)

lemma pow2_mono: "a \<le> b \<Longrightarrow> pow2 a \<le> pow2 b"
  by (simp add: pow2_powi power_int_increasing)

lemma pow2_less_iff: "pow2 a < pow2 b \<longleftrightarrow> a < b"
  by (metis pow2_mono pow2_powi linorder_not_less order_less_le power_int_strict_increasing one_less_numeral_iff semiring_norm(76))

lemma pow2_nat: "0 \<le> k \<Longrightarrow> pow2 k = 2 ^ nat k"
  by (simp add: pow2_def)

lemma ilog2_bounds:
  assumes "0 < r"
  shows "pow2 (ilog2 r) \<le> r \<and> r < pow2 (ilog2 r + 1)"
proof -
  obtain p q where pq: "quotient_of r = (p, q)" by (cases "quotient_of r")
  then have q: "0 < q" and r: "r = of_int p / of_int q"
    using quotient_of_denom_pos quotient_of_div by blast+
  from assms r q have p: "0 < p" by (simp add: zero_less_divide_iff)
  define k where "k = bitlen p - bitlen q"
  from bitlen_bounds[OF p] bitlen_bounds[OF q]
  have bp: "2 ^ nat (bitlen p - 1) \<le> p" "p < 2 ^ nat (bitlen p)"
    and bq: "2 ^ nat (bitlen q - 1) \<le> q" "q < 2 ^ nat (bitlen q)" by auto
  have p1: "1 \<le> bitlen p" and q1: "1 \<le> bitlen q"
    using p q bitlen_eq_zero_iff[of p] bitlen_eq_zero_iff[of q] bitlen_nonneg[of p] bitlen_nonneg[of q]
    by linarith+
  have P: "pow2 (bitlen p - 1) \<le> of_int p" "of_int p < pow2 (bitlen p)"
    using bp p1 by (simp_all add: pow2_nat)
  have Q: "pow2 (bitlen q - 1) \<le> of_int q" "of_int q < pow2 (bitlen q)"
    using bq q1 by (simp_all add: pow2_nat)
  have qr: "0 < (of_int q :: rat)" using q by simp
  have up: "r < pow2 (k + 1)"
  proof -
    have "of_int p < pow2 (bitlen p)" by (rule P)
    also have "\<dots> = pow2 (k + 1) * pow2 (bitlen q - 1)"
      by (simp add: k_def pow2_add[symmetric])
    also have "\<dots> \<le> pow2 (k + 1) * of_int q"
      using Q(1) by (simp add: mult_left_mono less_imp_le)
    finally show ?thesis using qr by (simp add: r pos_divide_less_eq)
  qed
  have lo: "pow2 (k - 1) \<le> r"
  proof -
    have "pow2 (k - 1) * of_int q \<le> pow2 (k - 1) * pow2 (bitlen q)"
      using Q(2) by (simp add: mult_left_mono less_imp_le)
    also have "\<dots> = pow2 (bitlen p - 1)"
      by (simp add: k_def pow2_add[symmetric])
    also have "\<dots> \<le> of_int p" by (rule P)
    finally show ?thesis using qr by (simp add: r pos_le_divide_eq)
  qed
  have il: "ilog2 r = (if pow2 k \<le> r then k else k - 1)"
    by (simp add: ilog2_def pq k_def Let_def)
  show ?thesis
  proof (cases "pow2 k \<le> r")
    case True
    then show ?thesis using up by (simp add: il)
  next
    case False
    then show ?thesis using lo by (simp add: il)
  qed
qed

lemma ilog2_unique:
  assumes "pow2 k \<le> r" and "r < pow2 (k + 1)"
  shows "ilog2 r = k"
proof -
  have r: "0 < r" using assms(1) pow2_pos[of k] by linarith
  from ilog2_bounds[OF r] have b: "pow2 (ilog2 r) \<le> r" "r < pow2 (ilog2 r + 1)" by auto
  have "pow2 (ilog2 r) < pow2 (k + 1)" using b(1) assms(2) by linarith
  then have 1: "ilog2 r < k + 1" by (simp add: pow2_less_iff)
  have "pow2 k < pow2 (ilog2 r + 1)" using b(2) assms(1) by linarith
  then have 2: "k < ilog2 r + 1" by (simp add: pow2_less_iff)
  from 1 2 show ?thesis by linarith
qed

lemma round_half_even_int [simp]: "round_half_even (of_int n) = n"
  by (simp add: round_half_even_def)


lemma round_mag_exact:
  assumes m: "0 < m" "m < 2 ^ 53" and e: "- 1074 \<le> e"
    and b: "of_int m * pow2 e < pow2 1024"
  shows "round_mag (of_int m * pow2 e) = Some (of_int m * pow2 e)"
proof -
  define r where "r = of_int m * pow2 e"
  have r: "0 < r" using m by (simp add: r_def)
  define k where "k = ilog2 r"
  from ilog2_bounds[OF r] have kb: "pow2 k \<le> r" by (simp add: k_def)
  have "(of_int m :: rat) < 2 ^ 53" using m(2) by (metis of_int_less_iff of_int_numeral of_int_power)
  then have "r < pow2 53 * pow2 e" by (simp add: r_def pow2_nat)
  then have "pow2 k < pow2 (53 + e)" using kb by (simp add: pow2_add)
  then have ke: "k - 52 \<le> e" by (simp add: pow2_less_iff)
  define e' where "e' = max (k - 52) (- 1074)"
  have e': "e' \<le> e" using ke e by (simp add: e'_def)
  have pe: "pow2 e = pow2 (e - e') * pow2 e'" by (simp add: pow2_add[symmetric])
  have "r / pow2 e' = of_int m * pow2 (e - e')"
    by (simp add: r_def pe)
  also have "\<dots> = of_int (m * 2 ^ nat (e - e'))" using e' by (simp add: pow2_nat)
  finally have q: "r / pow2 e' = of_int (m * 2 ^ nat (e - e'))" .
  have x: "of_int (round_half_even (r / pow2 e')) * pow2 e' = r"
    unfolding q round_half_even_int using e' by (simp add: r_def pe pow2_nat)
  show ?thesis
    unfolding r_def[symmetric] round_mag_def Let_def k_def[symmetric] e'_def[symmetric] x
    using b by (simp add: r_def)
qed

lemma round64_exact:
  assumes "is_float64 r"
  shows "round64 r = Finite r"
proof -
  from assms obtain m e where m: "\<bar>m\<bar> < 2 ^ 53" and e: "- 1074 \<le> e"
    and r: "r = of_int m * pow2 e" and b: "\<bar>r\<bar> < pow2 1024"
    unfolding is_float64_def by blast
  show ?thesis
  proof (cases "r = 0")
    case True
    then show ?thesis by (simp add: round64_def)
  next
    case False
    show ?thesis
    proof (cases "0 < r")
      case True
      then have "0 < m" using r pow2_pos[of e] by (simp add: zero_less_mult_iff)
      with m b True have "round_mag (of_int m * pow2 e) = Some (of_int m * pow2 e)"
        by (intro round_mag_exact e) (auto simp: r)
      then show ?thesis using True by (simp add: round64_def r)
    next
      case F: False
      with False have neg: "r < 0" by simp
      then have "m < 0" using r pow2_pos[of e] by (simp add: mult_less_0_iff not_less)
      then have "0 < - m" by simp
      with m b neg have "round_mag (of_int (- m) * pow2 e) = Some (of_int (- m) * pow2 e)"
        by (intro round_mag_exact e) (auto simp: r)
      then have "round_mag (- r) = Some (- r)" by (simp add: r)
      then show ?thesis using neg by (simp add: round64_def)
    qed
  qed
qed

lemma is_float64_int: "\<bar>n\<bar> < 2 ^ 53 \<Longrightarrow> is_float64 (of_int n)"
  unfolding is_float64_def
  apply (rule exI[of _ n], rule exI[of _ 0])
  apply (simp add: pow2_def)
  done

lemma round64_int: "\<bar>n\<bar> < 2 ^ 53 \<Longrightarrow> round64 (of_int n) = Finite (of_int n)"
  by (rule round64_exact[OF is_float64_int])

lemma round64_numeral [simp]:
  "(numeral w :: int) < 2 ^ 53 \<Longrightarrow> round64 (numeral w) = Finite (numeral w)"
  using round64_int[of "numeral w"] by simp

lemma round64_1 [simp]: "round64 1 = Finite 1"
  using round64_int[of 1] by simp

lemma round64_0 [simp]: "round64 0 = Finite 0"
  by (simp add: round64_def)

lemma round64_neg_numeral [simp]:
  "(numeral w :: int) < 2 ^ 53 \<Longrightarrow> round64 (- numeral w) = Finite (- numeral w)"
  using round64_int[of "- numeral w"] by simp

text \<open>Values that round to themselves, and the truncation of a float64.\<close>

lemma is_float64_dyadic:
  assumes "\<bar>m\<bar> < 2 ^ 53" and "k \<le> 1074"
  shows "is_float64 (of_int m / 2 ^ k)"
proof -
  have p: "pow2 (- int k) = 1 / 2 ^ k" by (simp add: pow2_def)
  have a: "\<bar>of_int m :: rat\<bar> < 2 ^ 53"
    using assms(1) by (metis of_int_abs of_int_less_iff of_int_numeral of_int_power)
  have "\<bar>of_int m / 2 ^ k :: rat\<bar> = \<bar>of_int m\<bar> / 2 ^ k" by simp
  also have "\<dots> \<le> \<bar>of_int m\<bar> / 1" by (rule divide_left_mono) simp_all
  also have "\<dots> = \<bar>of_int m\<bar>" by simp
  also have "\<dots> < 2 ^ 53" by (rule a)
  also have "\<dots> < pow2 1024" by (simp add: pow2_def)
  finally have b: "\<bar>of_int m / 2 ^ k :: rat\<bar> < pow2 1024" .
  show ?thesis
    unfolding is_float64_def
    by (rule exI[of _ m], rule exI[of _ "- int k"]) (use assms b in \<open>simp add: p\<close>)
qed

lemma round64_dyadic:
  "\<bar>m\<bar> < 2 ^ 53 \<Longrightarrow> k \<le> 1074 \<Longrightarrow> round64 (of_int m / 2 ^ k) = Finite (of_int m / 2 ^ k)"
  by (rule round64_exact[OF is_float64_dyadic])

lemma round64_5_2 [simp]: "round64 (5 / 2) = Finite (5 / 2)"
  using round64_dyadic[of 5 1] by simp

lemma round64_m1 [simp]: "round64 (- 1) = Finite (- 1)"
  using round64_int[of "- 1"] by simp


lemma round64_big [simp]:
  "round64 10000000000000000000 = Finite 10000000000000000000"
  "round64 (- 9223372036854775808) = Finite (- 9223372036854775808)"
proof -
  have 1: "is_float64 10000000000000000000"
    unfolding is_float64_def
    by (rule exI[of _ "19073486328125"], rule exI[of _ 19]) (simp add: pow2_def)
  have 2: "is_float64 (- 9223372036854775808)"
    unfolding is_float64_def
    by (rule exI[of _ "- 1"], rule exI[of _ 63]) (simp add: pow2_def)
  show "round64 10000000000000000000 = Finite 10000000000000000000"
    by (rule round64_exact[OF 1])
  show "round64 (- 9223372036854775808) = Finite (- 9223372036854775808)"
    by (rule round64_exact[OF 2])
qed


lemma trunc_rat_of_int [simp]: "trunc_rat (of_int n) = n"
  by (simp add: trunc_rat_def)

lemma trunc_rat_abs_le: "\<bar>of_int (trunc_rat r) :: rat\<bar> \<le> \<bar>r\<bar>"
proof (cases "0 \<le> r")
  case True
  then show ?thesis by (simp add: trunc_rat_def)
next
  case False
  then have "0 \<le> \<lfloor>- r\<rfloor>" by simp
  with False show ?thesis by (simp add: trunc_rat_def)
qed

lemma trunc_rat_eq_iff: "of_int (trunc_rat r) = r \<longleftrightarrow> r \<in> \<int>"
proof
  assume "of_int (trunc_rat r) = r"
  then show "r \<in> \<int>" by (metis Ints_of_int)
next
  assume "r \<in> \<int>"
  then obtain n where "r = of_int n" by (auto elim: Ints_cases)
  then show "of_int (trunc_rat r) = r" by simp
qed

lemma is_float64_trunc:
  assumes "is_float64 r"
  shows "is_float64 (of_int (trunc_rat r))"
proof (cases "\<bar>r\<bar> < 2 ^ 53")
  case True
  with trunc_rat_abs_le[of r] have "\<bar>of_int (trunc_rat r) :: rat\<bar> < 2 ^ 53" by linarith
  then have "\<bar>trunc_rat r\<bar> < 2 ^ 53"
    by (metis of_int_abs of_int_less_iff of_int_numeral of_int_power)
  then show ?thesis by (rule is_float64_int)
next
  case False
  from assms obtain m e where m: "\<bar>m\<bar> < 2 ^ 53" and r: "r = of_int m * pow2 e"
    unfolding is_float64_def by blast
  have a: "\<bar>of_int m :: rat\<bar> < 2 ^ 53"
    using m by (metis of_int_abs of_int_less_iff of_int_numeral of_int_power)
  have "0 \<le> e"
  proof (rule ccontr)
    assume "\<not> 0 \<le> e"
    then have "pow2 e \<le> pow2 0" by (intro pow2_mono) simp
    then have "pow2 e \<le> 1" by (simp add: pow2_def)
    then have "\<bar>r\<bar> \<le> \<bar>of_int m\<bar>"
      unfolding r abs_mult using pow2_pos[of e]
      by (simp add: abs_of_pos mult_left_le)
    with a False show False by linarith
  qed
  then have "r = of_int (m * 2 ^ nat e)" by (simp add: r pow2_nat)
  then have "of_int (trunc_rat r) = r" by (metis trunc_rat_of_int)
  with assms show ?thesis by simp
qed

lemma truncate64_in_range:
  assumes "is_float64 r" and "int64_min \<le> trunc_rat r" and "trunc_rat r \<le> int64_max"
  shows "truncate64 (Finite r) = Finite (of_int (trunc_rat r))"
  using assms round64_exact[OF is_float64_trunc[OF assms(1)]]
  by (simp add: truncate64_def float64_of_def)

lemma feq_Finite [simp]: "feq (Finite a) (Finite b) \<longleftrightarrow> a = b"
  by (auto simp: feq_def)

lemma Variable_update_value:
  "v\<lparr>value' := t\<rparr> = \<lparr>isInt = isInt v, value' = t\<rparr>"
  by (cases v) simp

lemma feq_zero: "feq right (Finite 0) \<longleftrightarrow> is_zero right"
  by (cases right) (simp_all add: feq_def)

lemma setVariable_existing:
  "variables g name = Some v \<Longrightarrow>
   setVariable name b val g =
     g\<lparr>variables := (variables g)(name \<mapsto> v\<lparr>value' := if isInt v then truncate64 val else val\<rparr>)\<rparr>"
  by (simp add: setVariable_def)

section \<open>What every parsing function preserves\<close>

lemma presD: "pres RP RG f \<Longrightarrow> f p g = Some (v, p', g') \<Longrightarrow> RP p p' \<and> RG g g'"
  by (simp add: pres_def)

lemma step_okD:
  assumes "step_ok RP RG"
  shows "RP p p" and "RP p q \<Longrightarrow> RP q r \<Longrightarrow> RP p r" and "RG g g"
    and "RG g h \<Longrightarrow> RG h k \<Longrightarrow> RG g k" and "RP p (next' p)" and "RP p (error m p)"
    and "RG g (println x g)"
    and "functions g name = Some fn \<Longrightarrow> bindParams (params fn) args Map.empty g = Some (b, g1)
           \<Longrightarrow> RG g1 g2 \<Longrightarrow> RG g (restoreParams (params fn) b g2)"
proof -
  from assms have 1: "\<forall>p. RP p p" and 2: "\<forall>p q r. RP p q \<longrightarrow> RP q r \<longrightarrow> RP p r"
    and 3: "\<forall>g. RG g g" and 4: "\<forall>g h k. RG g h \<longrightarrow> RG h k \<longrightarrow> RG g k"
    and 5: "\<forall>p. RP p (next' p)" and 6: "\<forall>m p. RP p (error m p)"
    and 7: "\<forall>x g. RG g (println x g)"
    and 8: "\<forall>name fn args g b g1 g2.
          functions g name = Some fn \<longrightarrow>
          bindParams (params fn) args Map.empty g = Some (b, g1) \<longrightarrow> RG g1 g2 \<longrightarrow>
          RG g (restoreParams (params fn) b g2)"
    unfolding step_ok_def by simp_all
  show "RP p p" using 1 by (rule spec)
  show "RP p q \<Longrightarrow> RP q r \<Longrightarrow> RP p r" using 2 by blast
  show "RG g g" using 3 by (rule spec)
  show "RG g h \<Longrightarrow> RG h k \<Longrightarrow> RG g k" using 4 by blast
  show "RP p (next' p)" using 5 by (rule spec)
  show "RP p (error m p)" using 6 by blast
  show "RG g (println x g)" using 7 by blast
  show "functions g name = Some fn \<Longrightarrow> bindParams (params fn) args Map.empty g = Some (b, g1)
           \<Longrightarrow> RG g1 g2 \<Longrightarrow> RG g (restoreParams (params fn) b g2)"
    using 8 by blast
qed

lemma pres_parseExpression_body:
  assumes ok: "step_ok RP RG" and t: "pres RP RG pt" and l: "\<And>val. pres RP RG (el val)"
  shows "pres RP RG (parseExpression_body pt el)"
  unfolding pres_def
proof (intro allI impI)
  fix p g v p' g'
  assume a: "parseExpression_body pt el p g = Some (v, p', g')"
  then obtain val p1 g1 where 1: "pt p g = Some (val, p1, g1)" and 2: "el val p1 g1 = Some (v, p', g')"
    by (auto simp: parseExpression_body_def split: option.splits)
  from presD[OF t 1] presD[OF l 2] show "RP p p' \<and> RG g g'"
    by (meson step_okD(2)[OF ok] step_okD(4)[OF ok])
qed

lemma pres_loop_body:
  assumes ok: "step_ok RP RG" and t: "pres RP RG pt" and l: "\<And>val. pres RP RG (el val)"
  shows "pres RP RG (exprLoop_body pt el val)" and "pres RP RG (termLoop_body pt el val)"
proof -
  note n = step_okD(5)[OF ok]
  note tr = step_okD(2)[OF ok]
  note trg = step_okD(4)[OF ok]
  note rf = step_okD(1)[OF ok] step_okD(3)[OF ok]
  show "pres RP RG (exprLoop_body pt el val)"
    unfolding pres_def
  proof (intro allI impI)
    fix p g v p' g'
    assume a: "exprLoop_body pt el val p g = Some (v, p', g')"
    show "RP p p' \<and> RG g g'"
    proof (cases "typ' (curr p) = TokenPlus \<or> typ' (curr p) = TokenMinus")
      case True
      with a obtain right p2 g2 val2 where 1: "pt (next' p) g = Some (right, p2, g2)"
        and 2: "el val2 p2 g2 = Some (v, p', g')"
        by (auto simp: exprLoop_body_def Let_def split: option.splits if_splits)
      from presD[OF t 1] presD[OF l 2] show ?thesis by (meson n tr trg)
    next
      case False
      with a show ?thesis by (auto simp: exprLoop_body_def rf)
    qed
  qed
  show "pres RP RG (termLoop_body pt el val)"
    unfolding pres_def
  proof (intro allI impI)
    fix p g v p' g'
    assume a: "termLoop_body pt el val p g = Some (v, p', g')"
    show "RP p p' \<and> RG g g'"
    proof (cases "typ' (curr p) = TokenStar \<or> typ' (curr p) = TokenSlash")
      case True
      with a obtain right p2 g2 val2 where 1: "pt (next' p) g = Some (right, p2, g2)"
        and 2: "el val2 p2 g2 = Some (v, p', g')"
        by (auto simp: termLoop_body_def Let_def split: option.splits if_splits)
      from presD[OF t 1] presD[OF l 2] show ?thesis by (meson n tr trg)
    next
      case False
      with a show ?thesis by (auto simp: termLoop_body_def rf)
    qed
  qed
qed

lemma pres_parseTerm_body:
  assumes ok: "step_ok RP RG" and t: "pres RP RG pf" and l: "\<And>val. pres RP RG (lp val)"
  shows "pres RP RG (parseTerm_body pf lp)"
  unfolding pres_def
proof (intro allI impI)
  fix p g v p' g'
  assume a: "parseTerm_body pf lp p g = Some (v, p', g')"
  then obtain val p1 g1 where 1: "pf p g = Some (val, p1, g1)" and 2: "lp val p1 g1 = Some (v, p', g')"
    by (auto simp: parseTerm_body_def split: option.splits)
  from presD[OF t 1] presD[OF l 2] show "RP p p' \<and> RG g g'"
    by (meson step_okD(2)[OF ok] step_okD(4)[OF ok])
qed

lemma pres_finishCall:
  assumes ok: "step_ok RP RG" and c: "pres_call RG ef"
  shows "pres RP RG (finishCall ef name args)"
  unfolding pres_def
proof (intro allI impI)
  fix p g v p' g'
  assume a: "finishCall ef name args p g = Some (v, p', g')"
  note n = step_okD(5)[OF ok]
  note e = step_okD(6)[OF ok]
  note tr = step_okD(2)[OF ok]
  note rf = step_okD(1)[OF ok] step_okD(3)[OF ok]
  note pr = step_okD(7)[OF ok]
  have cl: "functions g name = Some fn \<Longrightarrow> ef fn args g = Some (v, g') \<Longrightarrow> RG g g'"
    for name fn args g v g'
    using c unfolding pres_call_def by blast
  from a show "RP p p' \<and> RG g g'"
    by (auto simp: finishCall_def getFunction_def Let_def n e rf pr
        split: if_splits option.splits intro: tr[OF n e] dest: cl)
qed

lemma pres_parseArgs_body:
  assumes ok: "step_ok RP RG" and t: "pres RP RG pe" and l: "\<And>args. pres RP RG (pa args)"
  shows "pres RP RG (parseArgs_body pe pa args)"
  unfolding pres_def
proof (intro allI impI)
  fix p g v p' g'
  assume a: "parseArgs_body pe pa args p g = Some (v, p', g')"
  note n = step_okD(5)[OF ok]
  note tr = step_okD(2)[OF ok]
  note trg = step_okD(4)[OF ok]
  from a obtain argVal p1 g1 where 1: "pe p g = Some (argVal, p1, g1)"
    by (auto simp: parseArgs_body_def split: option.splits)
  show "RP p p' \<and> RG g g'"
  proof (cases "typ' (curr p1) = TokenComma")
    case True
    with a 1 have 2: "pa (args @ [argVal]) (next' p1) g1 = Some (v, p', g')"
      by (simp add: parseArgs_body_def Let_def)
    from presD[OF t 1] presD[OF l 2] show ?thesis by (meson n tr trg)
  next
    case False
    with a 1 have "p' = p1" "g' = g1" by (simp_all add: parseArgs_body_def Let_def)
    with presD[OF t 1] show ?thesis by simp
  qed
qed

lemma pres_parseFactor_body:
  assumes ok: "step_ok RP RG" and e: "pres RP RG pe" and a: "\<And>args. pres RP RG (pa args)"
    and c: "pres_call RG ef"
  shows "pres RP RG (parseFactor_body pe pa ef)"
  unfolding pres_def
proof (intro allI impI)
  fix p g v p' g'
  assume h: "parseFactor_body pe pa ef p g = Some (v, p', g')"
  note n = step_okD(5)[OF ok]
  note er = step_okD(6)[OF ok]
  note tr = step_okD(2)[OF ok]
  note trg = step_okD(4)[OF ok]
  note rf = step_okD(1)[OF ok] step_okD(3)[OF ok]
  note pr = step_okD(7)[OF ok]
  note fc = presD[OF pres_finishCall[OF ok c]]
  show "RP p p' \<and> RG g g'"
  proof (cases "typ' (curr p)")
    case TokenNumber
    with h show ?thesis by (auto simp: parseFactor_body_def n er rf split: option.splits)
  next
    case TokenIdent
    show ?thesis
    proof (cases "typ' (curr (next' p)) = TokenLParen")
      case True
      let ?p2 = "next' (next' p)"
      have p2: "RP p ?p2" by (meson n tr)
      show ?thesis
      proof (cases "typ' (curr ?p2) \<noteq> TokenRParen")
        case True
        with h TokenIdent \<open>typ' (curr (next' p)) = TokenLParen\<close>
        obtain args p3 g3 where 1: "pa [] ?p2 g = Some (args, p3, g3)"
          and 2: "finishCall ef (tvalue (curr p)) args p3 g3 = Some (v, p', g')"
          by (auto simp: parseFactor_body_def Let_def split: option.splits)
        from presD[OF a 1] fc[OF 2] p2 show ?thesis by (meson tr trg)
      next
        case False
        with h TokenIdent \<open>typ' (curr (next' p)) = TokenLParen\<close>
        have 2: "finishCall ef (tvalue (curr p)) [] ?p2 g = Some (v, p', g')"
          by (auto simp: parseFactor_body_def Let_def split: option.splits)
        from fc[OF 2] p2 show ?thesis by (meson tr)
      qed
    next
      case False
      with h TokenIdent show ?thesis
        by (auto simp: parseFactor_body_def Let_def n rf pr split: option.splits)
    qed
  next
    case TokenLParen
    with h obtain val p2 g2 where 1: "pe (next' p) g = Some (val, p2, g2)"
      and 2: "p' = error ParenExpected p2 \<or> p' = next' p2" and 3: "g' = g2"
      by (auto simp: parseFactor_body_def Let_def split: option.splits if_splits)
    from presD[OF e 1] 2 3 show ?thesis by (metis n er tr)
  qed (use h in \<open>auto simp: parseFactor_body_def er rf\<close>)
qed

lemma pres_evaluateFunction_body:
  assumes ok: "step_ok RP RG" and e: "pres RP RG pe"
  shows "pres_call RG (evaluateFunction_body pe)"
  unfolding pres_call_def
proof (intro allI impI)
  fix name fn args g v g'
  assume fn: "functions g name = Some fn"
    and h: "evaluateFunction_body pe fn args g = Some (v, g')"
  note trg = step_okD(4)[OF ok]
  note pr = step_okD(7)[OF ok] and rf = step_okD(3)[OF ok]
  note cl = step_okD(8)[OF ok]
  from h obtain backup g1 val p g2 where 1: "bindParams (params fn) args Map.empty g = Some (backup, g1)"
    and 2: "pe (NewParser (expression fn)) g1 = Some (val, p, g2)"
    and 3: "g' = restoreParams (params fn) backup (case errMsg p of Some msg \<Rightarrow> println (FunctionEvalError msg) g2 | None \<Rightarrow> g2)"
    by (auto simp: evaluateFunction_body_def Let_def split: option.splits)
  have "RG g2 (case errMsg p of Some msg \<Rightarrow> println (FunctionEvalError msg) g2 | None \<Rightarrow> g2)"
    using pr rf by (auto split: option.splits)
  with presD[OF e 2] have "RG g1 (case errMsg p of Some msg \<Rightarrow> println (FunctionEvalError msg) g2 | None \<Rightarrow> g2)"
    by (metis trg)
  from cl[OF fn 1 this] 3 show "RG g g'" by simp
qed

lemma pres_all: "step_ok RP RG \<Longrightarrow> pres_level RP RG n"
proof (induction n)
  case 0
  show ?case by (simp add: pres_level_def pres_def pres_call_def)
next
  case (Suc n)
  note ok = Suc.prems
  from Suc.IH[OF ok] have e: "pres RP RG (parseExpression n)" and el: "\<And>val. pres RP RG (exprLoop n val)"
    and t: "pres RP RG (parseTerm n)" and tlp: "\<And>val. pres RP RG (termLoop n val)"
    and f: "pres RP RG (parseFactor n)" and a: "\<And>args. pres RP RG (parseArgs n args)"
    and c: "pres_call RG (evaluateFunction n)"
    by (simp_all add: pres_level_def)
  have eqs: "parseExpression (Suc n) = parseExpression_body (parseTerm n) (exprLoop n)"
    "exprLoop (Suc n) = exprLoop_body (parseTerm n) (exprLoop n)"
    "parseTerm (Suc n) = parseTerm_body (parseFactor n) (termLoop n)"
    "termLoop (Suc n) = termLoop_body (parseFactor n) (termLoop n)"
    "parseFactor (Suc n) = parseFactor_body (parseExpression n) (parseArgs n) (evaluateFunction n)"
    "parseArgs (Suc n) = parseArgs_body (parseExpression n) (parseArgs n)"
    "evaluateFunction (Suc n) = evaluateFunction_body (parseExpression n)"
    by (intro ext, simp add: parseExpression_Suc exprLoop_Suc parseTerm_Suc termLoop_Suc
        parseFactor_Suc parseArgs_Suc evaluateFunction_Suc)+
  show ?case
    unfolding pres_level_def eqs
    using pres_parseExpression_body[where el = "exprLoop n", OF ok t el]
      pres_loop_body(1)[where el = "exprLoop n", OF ok t el]
      pres_parseTerm_body[where lp = "termLoop n", OF ok f tlp]
      pres_loop_body(2)[where el = "termLoop n", OF ok f tlp]
      pres_parseFactor_body[where pa = "parseArgs n", OF ok e a c]
      pres_parseArgs_body[where pa = "parseArgs n", OF ok e a]
      pres_evaluateFunction_body[OF ok e]
    by blast
qed

section \<open>Calls of functions with distinct parameters\<close>

lemma Variable_copy [simp]: "\<lparr>isInt = isInt v, value' = value' v\<rparr> = v"
  by (cases v) simp

lemma setVariable_other [simp]: "q \<noteq> name \<Longrightarrow> variables (setVariable name b val g) q = variables g q"
  by (simp add: setVariable_def Let_def split: option.splits)

lemma setVariable_functions [simp]: "functions (setVariable name b val g) = functions g"
  by (simp add: setVariable_def Let_def split: option.splits)




lemma restoreParams_functions [simp]: "functions (restoreParams ps b g) = functions g"
  by (induction ps b g rule: restoreParams.induct) (auto simp: Let_def split: option.splits)





section \<open>Running the model on a concrete line\<close>

lemma fuel:
  "0 < n \<Longrightarrow> parseExpression n p g = parseExpression_body (parseTerm (n - 1)) (exprLoop (n - 1)) p g"
  "0 < n \<Longrightarrow> exprLoop n val p g = exprLoop_body (parseTerm (n - 1)) (exprLoop (n - 1)) val p g"
  "0 < n \<Longrightarrow> parseTerm n p g = parseTerm_body (parseFactor (n - 1)) (termLoop (n - 1)) p g"
  "0 < n \<Longrightarrow> termLoop n val p g = termLoop_body (parseFactor (n - 1)) (termLoop (n - 1)) val p g"
  "0 < n \<Longrightarrow> parseFactor n p g =
     parseFactor_body (parseExpression (n - 1)) (parseArgs (n - 1)) (evaluateFunction (n - 1)) p g"
  "0 < n \<Longrightarrow> parseArgs n args p g = parseArgs_body (parseExpression (n - 1)) (parseArgs (n - 1)) args p g"
  "0 < n \<Longrightarrow> evaluateFunction n fn args g = evaluateFunction_body (parseExpression (n - 1)) fn args g"
  by (cases n; simp add: parseExpression_Suc exprLoop_Suc parseTerm_Suc termLoop_Suc
      parseFactor_Suc parseArgs_Suc evaluateFunction_Suc)+

text \<open>
  The equations of the three loops of the lexer rewrite a loop into itself; they are used
  on concrete input only.
\<close>

declare skipSpaces.simps [simp del] scanNumber.simps [simp del] scanIdent.simps [simp del]

lemmas lex_simps = NextToken_def NewLexer_def peekRune_def nextRune_def IsSpace_def IsDigit_def
  IsLetter_def slice_def next'_def NewParser_def Let_def skipSpaces.simps scanNumber.simps
  scanIdent.simps

lemmas str_simps = TrimSpace_def HasPrefix_def HasSuffix_def Contains_def SplitN2_def normalize_def

lemmas parse_simps = fuel parseExpression_body_def exprLoop_body_def parseTerm_body_def
  termLoop_body_def parseFactor_body_def parseArgs_body_def evaluateFunction_body_def
  finishCall_def mulDiv_def error_def println_def getVariable_def getFunction_def
  setVariable_def setFunction_def evaluateExpression_def

lemmas stmt_simps = processLine_def printStatement_def functionStatement_def initStatement_def
  assignStatement_def start_def

lemmas num_simps = ParseFloat_def digits_value_def truncate64_def float64_of_def trunc_rat_def
  int64_min_def int64_max_def feq_def fadd_def fsub_def fmul_def fdiv_def

lemmas eval_simps = lex_simps str_simps parse_simps stmt_simps num_simps

lemma errMsg_next' [simp]: "errMsg (next' p) = errMsg p"
  by (simp add: next'_def split: prod.splits)

lemma errMsg_error [simp]: "errMsg (error m p) = Some m"
  by (simp add: error_def)

lemma sticky_ok: "step_ok (\<lambda>p p'. errMsg p \<noteq> None \<longrightarrow> errMsg p' \<noteq> None) (\<lambda>g g'. True)"
  by (simp add: step_ok_def)

section \<open>The lexer and the parser on an unrecognized character\<close>

lemma NextToken_unrecognized:
  assumes "unrecognized c" and "c \<noteq> CHR 0x00" and "peekRune (skipSpaces l) = c"
  shows "NextToken l = (\<lparr>typ' = TokenError, tvalue = [c]\<rparr>, skipSpaces l)"
  using assms by (simp add: NextToken_def unrecognized_def Let_def)

lemma parseFactor_error_token:
  assumes "typ' (curr p) = TokenError"
  shows "parseFactor (Suc n) p g = Some (Finite 0, error (UnexpectedToken (tvalue (curr p))) p, g)"
  using assms by (simp add: parseFactor_Suc parseFactor_body_def)

lemma curr_error [simp]: "curr (error m p) = curr p"
  by (simp add: error_def)

section \<open>Trimmed text\<close>

lemma TrimSpace_hd: "TrimSpace s = c # cs \<Longrightarrow> \<not> IsSpace c"
proof -
  assume a: "TrimSpace s = c # cs"
  define t where "t = dropWhile IsSpace s"
  have "prefix (TrimSpace s) t"
    unfolding TrimSpace_def t_def[symmetric]
    by (metis prefix_def rev_append rev_rev_ident takeWhile_dropWhile_id)
  with a obtain ts where "t = c # ts" by (auto simp: prefix_def)
  then show ?thesis unfolding t_def by (metis hd_dropWhile list.distinct(1) list.sel(1))
qed

lemma TrimSpace_last: "TrimSpace s \<noteq> [] \<Longrightarrow> \<not> IsSpace (last (TrimSpace s))"
proof -
  assume a: "TrimSpace s \<noteq> []"
  define u where "u = dropWhile IsSpace (rev (dropWhile IsSpace s))"
  have t: "TrimSpace s = rev u" by (simp add: TrimSpace_def u_def)
  with a have "u \<noteq> []" by simp
  then have "\<not> IsSpace (hd u)" unfolding u_def by (rule hd_dropWhile)
  then show ?thesis using \<open>u \<noteq> []\<close> by (simp add: t last_rev)
qed

lemma TrimSpace_fixed:
  assumes "s \<noteq> []" "\<not> IsSpace (hd s)" "\<not> IsSpace (last s)"
  shows "TrimSpace s = s"
proof -
  from assms have 1: "dropWhile IsSpace s = s" by (cases s) auto
  from assms have "rev s \<noteq> []" "\<not> IsSpace (hd (rev s))" by (simp_all add: hd_rev)
  then have 2: "dropWhile IsSpace (rev s) = rev s" by (cases "rev s") auto
  show ?thesis by (simp add: TrimSpace_def 1 2)
qed

lemma TrimSpace_idem [simp]: "TrimSpace (TrimSpace s) = TrimSpace s"
proof (cases "TrimSpace s")
  case Nil
  have "TrimSpace [] = []" by (simp add: TrimSpace_def)
  with Nil show ?thesis by simp
next
  case (Cons c cs)
  then have "\<not> IsSpace (hd (TrimSpace s))" using TrimSpace_hd by fastforce
  moreover have "\<not> IsSpace (last (TrimSpace s))" by (rule TrimSpace_last) (simp add: Cons)
  ultimately show ?thesis using Cons by (intro TrimSpace_fixed) auto
qed






lemma TrimSpace_Nil [simp]: "TrimSpace [] = []"
  by (simp add: TrimSpace_def)



section \<open>What a line does to the variables named like \<open>print\<close>\<close>





section \<open>The claims\<close>

text \<open>
  C6, as the source has it. The claim says that the error state is sticky: once set, it
  is never overwritten or cleared, and the caller sees the first error. \<open>p.error\<close>
  assigns \<open>errMsg\<close> without looking at it, so a later error replaces an earlier message:
  in \<open>* (1\<close> the factor at \<open>*\<close> records "unexpected token", the loop of \<open>parseTerm\<close>
  goes on behind the \<open>*\<close>, and the missing \<open>)\<close> replaces the message; the caller sees
  the last error.
\<close>

theorem first_error_overwritten:
  "map_option (\<lambda>(v, p, g). errMsg p) (parseFactor 10 (NewParser ''* (1'') start)
     = Some (Some (UnexpectedToken ''*'')) \<and>
   map_option (\<lambda>(v, p, g). errMsg p) (parseExpression 10 (NewParser ''* (1'') start)
     = Some (Some ParenExpected)"
  by (simp add: eval_simps)

text \<open>
  C6, amended: once the parser's error message is set, no function of the recursive
  descent that returns leaves it empty; the flag is never cleared within one evaluation,
  though the message may be replaced by that of a later error.
\<close>

theorem error_flag_stays_set:
  assumes "errMsg p \<noteq> None"
  shows "(parseExpression n p g = Some (v, p', g') \<longrightarrow> errMsg p' \<noteq> None) \<and>
         (exprLoop n val p g = Some (v, p', g') \<longrightarrow> errMsg p' \<noteq> None) \<and>
         (parseTerm n p g = Some (v, p', g') \<longrightarrow> errMsg p' \<noteq> None) \<and>
         (termLoop n val p g = Some (v, p', g') \<longrightarrow> errMsg p' \<noteq> None) \<and>
         (parseFactor n p g = Some (v, p', g') \<longrightarrow> errMsg p' \<noteq> None) \<and>
         (parseArgs n args p g = Some (vs, p', g') \<longrightarrow> errMsg p' \<noteq> None)"
  using pres_all[OF sticky_ok, of n] assms
  unfolding pres_level_def pres_def by meson

theorem error_flag_stays_set_witness:
  "errMsg (error (BadNumber ''1.2.3'') (NewParser ''+ y'')) \<noteq> None \<and>
   exprLoop 4 (Finite 0) (error (BadNumber ''1.2.3'') (NewParser ''+ y'')) start =
     Some (Finite 0,
           \<lparr>lexer = \<lparr>input = ''+ y'', pos = 3\<rparr>, curr = \<lparr>typ' = TokenEOF, tvalue = []\<rparr>,
              errMsg = Some (BadNumber ''1.2.3'')\<rparr>,
           println (UndeclaredVariable ''y'') start) \<and>
   errMsg \<lparr>lexer = \<lparr>input = ''+ y'', pos = 3\<rparr>, curr = \<lparr>typ' = TokenEOF, tvalue = []\<rparr>,
              errMsg = Some (BadNumber ''1.2.3'')\<rparr> \<noteq> None"
  using error_flag_stays_set[of "error (BadNumber ''1.2.3'') (NewParser ''+ y'')" 4 start
      "Finite 0" "\<lparr>lexer = \<lparr>input = ''+ y'', pos = 3\<rparr>, curr = \<lparr>typ' = TokenEOF, tvalue = []\<rparr>,
              errMsg = Some (BadNumber ''1.2.3'')\<rparr>" "println (UndeclaredVariable ''y'') start"
      "Finite 0"]
  by (simp add: eval_simps)

text \<open>
  C9, as the source has it. The claim says that every unrecognized character of an
  evaluated expression becomes an error token and then a parse error. The lexer is read
  one token ahead and only while the grammar goes on: in \<open>1 $\<close> the error token for
  \<open>$\<close> is the current token when \<open>parseExpression\<close> returns, nothing looks at it, and the
  evaluation ends with the value 1 and no error.
\<close>

theorem trailing_character_ignored:
  "unrecognized CHR ''$'' \<and> CHR ''$'' \<in> set ''1 $'' \<and>
   map_option fst (evaluateExpression 10 ''1 $'' start) = Some (Finite 1, True)"
  by (simp add: unrecognized_def eval_simps)

text \<open>
  C9, amended: when the first rune behind the white space is an unrecognized character
  (other than the rune 0, which the lexer reads as the end of the input), \<open>NextToken\<close>
  returns an error token that carries it and does not advance; \<open>parseFactor\<close> turns an
  error token into the parse error "unexpected token"; so an expression that starts
  with such a character evaluates with the error flag set. Nothing is said of an error
  token behind a complete expression.
\<close>

theorem unrecognized_character:
  "(unrecognized c \<and> c \<noteq> CHR 0x00 \<and> peekRune (skipSpaces l) = c \<longrightarrow>
      NextToken l = (\<lparr>typ' = TokenError, tvalue = [c]\<rparr>, skipSpaces l)) \<and>
   (typ' (curr p) = TokenError \<longrightarrow>
      parseFactor (Suc n) p g = Some (Finite 0, error (UnexpectedToken (tvalue (curr p))) p, g) \<and>
      errMsg (error (UnexpectedToken (tvalue (curr p))) p) \<noteq> None) \<and>
   (unrecognized c \<and> c \<noteq> CHR 0x00 \<and> peekRune (skipSpaces (NewLexer expr)) = c \<longrightarrow>
      evaluateExpression (Suc (Suc (Suc n))) expr g =
        Some ((Finite 0, False), println (ExpressionEvalError (UnexpectedToken [c])) g))"
proof (intro conjI impI)
  assume "unrecognized c \<and> c \<noteq> CHR 0x00 \<and> peekRune (skipSpaces l) = c"
  then show "NextToken l = (\<lparr>typ' = TokenError, tvalue = [c]\<rparr>, skipSpaces l)"
    by (simp add: NextToken_unrecognized)
next
  assume "typ' (curr p) = TokenError"
  then show "parseFactor (Suc n) p g = Some (Finite 0, error (UnexpectedToken (tvalue (curr p))) p, g)"
    by (rule parseFactor_error_token)
next
  show "errMsg (error (UnexpectedToken (tvalue (curr p))) p) \<noteq> None" by simp
next
  assume a: "unrecognized c \<and> c \<noteq> CHR 0x00 \<and> peekRune (skipSpaces (NewLexer expr)) = c"
  define q where "q = NewParser expr"
  from a have nt: "NextToken (NewLexer expr) = (\<lparr>typ' = TokenError, tvalue = [c]\<rparr>, skipSpaces (NewLexer expr))"
    by (simp add: NextToken_unrecognized)
  have q: "typ' (curr q) = TokenError" "tvalue (curr q) = [c]" "errMsg q = None"
    by (simp_all add: q_def NewParser_def next'_def nt)
  have f: "parseFactor (Suc n) q g = Some (Finite 0, error (UnexpectedToken [c]) q, g)"
    using parseFactor_error_token[OF q(1)] q(2) by simp
  have "parseExpression (Suc (Suc (Suc n))) q g = Some (Finite 0, error (UnexpectedToken [c]) q, g)"
    by (simp add: parseExpression_Suc parseExpression_body_def parseTerm_Suc parseTerm_body_def f
        termLoop_Suc termLoop_body_def exprLoop_Suc exprLoop_body_def q)
  then show "evaluateExpression (Suc (Suc (Suc n))) expr g =
        Some ((Finite 0, False), println (ExpressionEvalError (UnexpectedToken [c])) g)"
    by (simp add: evaluateExpression_def q_def[symmetric])
qed

theorem unrecognized_character_witness:
  "(unrecognized CHR ''$'' \<and> CHR ''$'' \<noteq> CHR 0x00 \<and> peekRune (skipSpaces (NewLexer '' $ + 1'')) = CHR ''$'') \<and>
   NextToken (NewLexer '' $ + 1'') = (\<lparr>typ' = TokenError, tvalue = ''$''\<rparr>, skipSpaces (NewLexer '' $ + 1'')) \<and>
   typ' (curr (NewParser '' $ + 1'')) = TokenError \<and>
   parseFactor (Suc 0) (NewParser '' $ + 1'') start =
     Some (Finite 0, error (UnexpectedToken (tvalue (curr (NewParser '' $ + 1'')))) (NewParser '' $ + 1''), start) \<and>
   evaluateExpression (Suc (Suc (Suc 0))) '' $ + 1'' start =
     Some ((Finite 0, False), println (ExpressionEvalError (UnexpectedToken ''$'')) start)"
  using unrecognized_character[of "CHR ''$''" "NewLexer '' $ + 1''" "NewParser '' $ + 1''" 0 start "'' $ + 1''"]
  by (simp add: unrecognized_def lex_simps)

text \<open>
  C5: in \<open>parseFactor\<close>, an identifier that is not followed by \<open>(\<close> and names no variable
  prints "undeclared variable", yields 0 and leaves the error message as it was; an
  identifier with an argument list that closes with \<open>)\<close> and names no function prints
  "undeclared function", yields 0 and leaves the error message as the arguments left it;
  a call whose number of arguments differs from the number of parameters yields 0 and
  sets the error message.
\<close>

theorem undeclared_names_and_arity:
  "(typ' (curr p) = TokenIdent \<and> typ' (curr (next' p)) \<noteq> TokenLParen \<and>
      variables g (tvalue (curr p)) = None \<longrightarrow>
      parseFactor (Suc n) p g =
        Some (Finite 0, next' p, println (UndeclaredVariable (tvalue (curr p))) g) \<and>
      errMsg (next' p) = errMsg p) \<and>
   (typ' (curr p) = TokenIdent \<and> typ' (curr (next' p)) = TokenLParen \<and>
      (if typ' (curr (next' (next' p))) \<noteq> TokenRParen then parseArgs n [] (next' (next' p)) g
       else Some ([], next' (next' p), g)) = Some (args, p3, g3) \<and>
      typ' (curr p3) = TokenRParen \<and> functions g3 (tvalue (curr p)) = None \<longrightarrow>
      parseFactor (Suc n) p g =
        Some (Finite 0, next' p3, println (UndeclaredFunction (tvalue (curr p))) g3) \<and>
      errMsg (next' p3) = errMsg p3) \<and>
   (typ' (curr p) = TokenIdent \<and> typ' (curr (next' p)) = TokenLParen \<and>
      (if typ' (curr (next' (next' p))) \<noteq> TokenRParen then parseArgs n [] (next' (next' p)) g
       else Some ([], next' (next' p), g)) = Some (args, p3, g3) \<and>
      typ' (curr p3) = TokenRParen \<and> functions g3 (tvalue (curr p)) = Some fn \<and>
      length (params fn) \<noteq> length args \<longrightarrow>
      parseFactor (Suc n) p g =
        Some (Finite 0,
              error (ArityMismatch (tvalue (curr p)) (length (params fn)) (length args)) (next' p3),
              g3) \<and>
      errMsg (error (ArityMismatch (tvalue (curr p)) (length (params fn)) (length args)) (next' p3))
        \<noteq> None)"
  by (auto simp: parseFactor_Suc parseFactor_body_def finishCall_def getVariable_def
      getFunction_def Let_def)

theorem undeclared_names_and_arity_witness:
  "parseFactor (Suc 0) (NewParser ''y'') start =
     Some (Finite 0, next' (NewParser ''y''), println (UndeclaredVariable ''y'') start) \<and>
   errMsg (next' (NewParser ''y'')) = None \<and>
   parseFactor (Suc 0) (NewParser ''h()'') start =
     Some (Finite 0, next' (next' (next' (NewParser ''h()''))), println (UndeclaredFunction ''h'') start) \<and>
   errMsg (next' (next' (next' (NewParser ''h()'')))) = None \<and>
   parseFactor (Suc 0) (NewParser ''f()'') f1 =
     Some (Finite 0, error (ArityMismatch ''f'' 1 0) (next' (next' (next' (NewParser ''f()'')))), f1) \<and>
   errMsg (error (ArityMismatch ''f'' 1 0) (next' (next' (next' (NewParser ''f()''))))) \<noteq> None"
  using undeclared_names_and_arity[of "NewParser ''y''" start 0 "[]" "next' (next' (NewParser ''y''))" start "\<lparr>params = [''a''], expression = ''a''\<rparr>"]
    undeclared_names_and_arity[of "NewParser ''h()''" start 0 "[]" "next' (next' (NewParser ''h()''))" start "\<lparr>params = [''a''], expression = ''a''\<rparr>"]
    undeclared_names_and_arity[of "NewParser ''f()''" f1 0 "[]" "next' (next' (NewParser ''f()''))" f1 "\<lparr>params = [''a''], expression = ''a''\<rparr>"]
  by (simp add: lex_simps start_def f1_def)




text \<open>
  C1, on the lines \<open>x = 5\<close> and \<open>x(f)=2.5\<close>. The claim says that an initialization
  with a type forces the type of a variable that exists with the other type.
  \<open>setVariable\<close> takes the type of an existing variable whatever its caller asks for, so
  \<open>x\<close> stays an integer and holds 2, where the claim has a floating \<open>x\<close> of 2.5.
\<close>

theorem typed_init_keeps_existing_type:
  "processLine 20 ''x = 5'' start = Some gx \<and>
   map_option (\<lambda>g. variables g ''x'') (processLine 20 ''x(f)=2.5'' gx)
     = Some (Some \<lparr>isInt = True, value' = Finite 2\<rparr>)"
  by (simp add: eval_simps gx_def)

text \<open>
  C2, on the globals after \<open>x = 5\<close>. The claim says that the variable bound for a
  parameter gets its type from the argument alone. Binding the parameter \<open>x\<close> to 2.5
  goes through \<open>setVariable\<close>, which keeps the integer type of the global \<open>x\<close> and
  truncates: the parameter holds 2, and \<open>y = f(2.5)\<close> with \<open>f(x): x\<close> makes \<open>y\<close> the
  integer 2.
\<close>

theorem parameter_keeps_existing_type:
  "map_option (\<lambda>(backup, g). variables g ''x'') (bindParams [''x''] [Finite (5 / 2)] Map.empty gx)
     = Some (Some \<lparr>isInt = True, value' = Finite 2\<rparr>) \<and>
   map_option (\<lambda>g. variables g ''y'') (processLines 20 [''f(x): x'', ''y = f(2.5)''] gx)
     = Some (Some \<lparr>isInt = True, value' = Finite 2\<rparr>)"
  by (simp add: eval_simps gx_def)

text \<open>
  C3, on the function \<open>f(a, a): a\<close>. The claim says that a parameter name that was
  absent before a call is absent after it, also when the name occurs twice among the
  parameters. At its second occurrence the first loop of \<open>evaluateFunction\<close> finds the
  variable that the first occurrence has just bound and saves it as the backup; the last
  loop puts it back. After \<open>f(1, 2)\<close> the store holds \<open>a\<close>, the integer 1.
\<close>

theorem duplicate_parameter_stays_in_store:
  "processLine 20 ''f(a, a): a'' start = Some gf \<and> variables gf ''a'' = None \<and>
   map_option (\<lambda>(v, g). (v, variables g ''a''))
     (evaluateFunction 20 \<lparr>params = [''a'', ''a''], expression = ''a''\<rparr> [Finite 1, Finite 2] gf)
     = Some (Finite 2, Some \<lparr>isInt = True, value' = Finite 1\<rparr>)"
  by (simp add: eval_simps gf_def)

text \<open>
  C7, on the globals after \<open>f(a, a): a\<close>. The claim says that a line whose expression
  ends with the error flag set leaves the store as it was. The line \<open>x = f(1, 2) +\<close>
  reports "unexpected token" and assigns nothing to \<open>x\<close>, but the call it made has left
  the variable \<open>a\<close> in the store.
\<close>

theorem failed_line_changes_store:
  "variables gf ''a'' = None \<and>
   map_option (\<lambda>g. (variables g ''a'', variables g ''x'', stdout g)) (processLine 20 ''x = f(1, 2) +'' gf)
     = Some (Some \<lparr>isInt = True, value' = Finite 1\<rparr>, None,
             [ExpressionEvalError (UnexpectedToken [])])"
  by (simp add: eval_simps gf_def)

text \<open>
  C8, as the source has it. The claim lists \<open>-1 / 0\<close> among the expressions that
  evaluate without a parse error, to negative infinity. The grammar has no unary minus:
  the \<open>-\<close> where a factor must start is an unexpected token, and the evaluation fails.
\<close>

theorem unary_minus_is_a_parse_error:
  "map_option fst (evaluateExpression 10 ''-1 / 0'' start) = Some (Finite 0, False)"
  by (simp add: eval_simps)

text \<open>
  C8, amended: a division never sets the error message. When the divisor equals zero
  (either zero), the quotient is that of the division by \<open>+0.0\<close>: NaN for a dividend
  that is zero or NaN, negative infinity for a negative one, positive infinity otherwise.
  So \<open>1 / 0\<close> is positive infinity, \<open>(0 - 1) / 0\<close> negative infinity and \<open>0 / 0\<close> NaN, each
  without an error.
\<close>

theorem division_by_zero:
  "(feq right (Finite 0) \<longrightarrow>
      mulDiv TokenSlash val right =
        (if val = NaN \<or> is_zero val then NaN else if fsign val then NegInf else PosInf)) \<and>
   (typ' (curr p) = TokenSlash \<longrightarrow>
      termLoop (Suc n) val p g =
        (case parseFactor n (next' p) g of
           None \<Rightarrow> None
         | Some (right, p2, g2) \<Rightarrow> termLoop n (mulDiv TokenSlash val right) p2 g2)) \<and>
   map_option fst (evaluateExpression 10 ''1 / 0'' start) = Some (PosInf, True) \<and>
   map_option fst (evaluateExpression 10 ''(0 - 1) / 0'' start) = Some (NegInf, True) \<and>
   map_option fst (evaluateExpression 10 ''0 / 0'' start) = Some (NaN, True)"
proof (intro conjI impI)
  assume "feq right (Finite 0)"
  then show "mulDiv TokenSlash val right =
        (if val = NaN \<or> is_zero val then NaN else if fsign val then NegInf else PosInf)"
    by (cases val) (auto simp: mulDiv_def fdiv_def)
next
  assume "typ' (curr p) = TokenSlash"
  then show "termLoop (Suc n) val p g =
        (case parseFactor n (next' p) g of
           None \<Rightarrow> None
         | Some (right, p2, g2) \<Rightarrow> termLoop n (mulDiv TokenSlash val right) p2 g2)"
    by (simp add: termLoop_Suc termLoop_body_def)
qed (simp_all add: eval_simps)

theorem division_by_zero_witness:
  "feq NegZero (Finite 0) \<and> mulDiv TokenSlash (Finite 1) NegZero = PosInf \<and>
   typ' (curr (NewParser ''/ 0'')) = TokenSlash \<and>
   termLoop (Suc 1) (Finite 1) (NewParser ''/ 0'') start =
     Some (PosInf, next' (next' (NewParser ''/ 0'')), start)"
  using division_by_zero[of NegZero "Finite 1" "NewParser ''/ 0''" 1 start]
  by (simp add: eval_simps)

text \<open>
  C4, as the source has it. The claim says that a new variable is an integer if and only
  if the value is an exact integer. The source tests \<open>float64(int64(val)) == val\<close>, and
  no int64 converts back to a number as large as \<open>10^19\<close> (whatever the conversion of
  a value out of range yields): \<open>z = 10000000000000000000\<close> creates a floating \<open>z\<close>.
\<close>

theorem huge_integer_becomes_float:
  "map_option (\<lambda>g. variables g ''z'') (processLine 20 ''z = 10000000000000000000'' start)
     = Some (Some \<lparr>isInt = False, value' = Finite 10000000000000000000\<rparr>) \<and>
   (10000000000000000000 :: rat) \<in> \<int>"
  by (simp add: eval_simps)

text \<open>
  C4, amended: a plain assignment \<open>name = expr\<close> whose expression evaluates without
  error to \<open>val\<close> stores, for a \<open>name\<close> that exists (in the store the evaluation leaves),
  \<open>float64(int64(val))\<close> under the unchanged flag when the flag is set and \<open>val\<close> itself
  when it is not; for a new \<open>name\<close> the flag is \<open>float64(int64(val)) == val\<close>, with the
  same choice of the value. For a finite \<open>val\<close> whose truncation toward zero fits into
  an int64, \<open>float64(int64(val))\<close> is that truncation, and the test holds if and only if
  \<open>val\<close> is an exact integer.
\<close>

theorem plain_assignment:
  assumes "TrimSpace line0 \<noteq> []" and "line = normalize line0"
    and "\<not> HasPrefix line ''print''" and "\<not> Contains line '':''" and "\<not> Contains line '')=''"
    and "Contains line ''=''"
    and "name = TrimSpace (fst (SplitN2 line ''=''))"
    and "expr = TrimSpace (snd (SplitN2 line ''=''))"
    and "evaluateExpression n expr g = Some ((val, True), g1)"
  shows "processLine n line0 g =
           Some (g1\<lparr>variables := (variables g1)(name \<mapsto>
             (case variables g1 name of
                Some v \<Rightarrow> \<lparr>isInt = isInt v, value' = (if isInt v then truncate64 val else val)\<rparr>
              | None \<Rightarrow> \<lparr>isInt = feq (truncate64 val) val,
                         value' = (if feq (truncate64 val) val then truncate64 val else val)\<rparr>))\<rparr>) \<and>
         (\<forall>r. val = Finite r \<and> is_float64 r \<and> int64_min \<le> trunc_rat r \<and> trunc_rat r \<le> int64_max \<longrightarrow>
            truncate64 val = Finite (of_int (trunc_rat r)) \<and>
            (feq (truncate64 val) val \<longleftrightarrow> r \<in> \<int>))"
proof (intro conjI allI impI)
  show "processLine n line0 g =
           Some (g1\<lparr>variables := (variables g1)(name \<mapsto>
             (case variables g1 name of
                Some v \<Rightarrow> \<lparr>isInt = isInt v, value' = (if isInt v then truncate64 val else val)\<rparr>
              | None \<Rightarrow> \<lparr>isInt = feq (truncate64 val) val,
                         value' = (if feq (truncate64 val) val then truncate64 val else val)\<rparr>))\<rparr>)"
    using assms
    by (auto simp: processLine_def assignStatement_def Let_def getVariable_def setVariable_def
        Variable_update_value split: option.splits)
next
  fix r
  assume a: "val = Finite r \<and> is_float64 r \<and> int64_min \<le> trunc_rat r \<and> trunc_rat r \<le> int64_max"
  then show "truncate64 val = Finite (of_int (trunc_rat r))"
    by (simp add: truncate64_in_range)
  from a show "feq (truncate64 val) val \<longleftrightarrow> r \<in> \<int>"
    by (simp add: truncate64_in_range trunc_rat_eq_iff)
qed

theorem plain_assignment_witness:
  "TrimSpace ''x = 2.5;'' \<noteq> [] \<and> ''x = 2.5'' = normalize ''x = 2.5;'' \<and>
   \<not> HasPrefix ''x = 2.5'' ''print'' \<and> \<not> Contains ''x = 2.5'' '':'' \<and>
   \<not> Contains ''x = 2.5'' '')='' \<and> Contains ''x = 2.5'' ''='' \<and>
   ''x'' = TrimSpace (fst (SplitN2 ''x = 2.5'' ''='')) \<and>
   ''2.5'' = TrimSpace (snd (SplitN2 ''x = 2.5'' ''='')) \<and>
   evaluateExpression 10 ''2.5'' gx = Some ((Finite (5 / 2), True), gx) \<and>
   processLine 10 ''x = 2.5;'' gx =
     Some (gx\<lparr>variables := (variables gx)(''x'' \<mapsto> \<lparr>isInt = True, value' = Finite 2\<rparr>)\<rparr>) \<and>
   is_float64 (5 / 2) \<and> int64_min \<le> trunc_rat (5 / 2) \<and> trunc_rat (5 / 2) \<le> int64_max \<and>
   truncate64 (Finite (5 / 2)) = Finite (of_int (trunc_rat (5 / 2))) \<and>
   \<not> feq (truncate64 (Finite (5 / 2))) (Finite (5 / 2)) \<and> (5 / 2 :: rat) \<notin> \<int>"
proof -
  have p1: "TrimSpace ''x = 2.5;'' \<noteq> []" by (simp add: str_simps IsSpace_def)
  have p2: "''x = 2.5'' = normalize ''x = 2.5;''" by (simp add: str_simps IsSpace_def)
  have p3: "\<not> HasPrefix ''x = 2.5'' ''print''" by (simp add: str_simps)
  have p4: "\<not> Contains ''x = 2.5'' '':''" by (simp add: str_simps)
  have p5: "\<not> Contains ''x = 2.5'' '')=''" by (simp add: str_simps)
  have p6: "Contains ''x = 2.5'' ''=''" by (simp add: str_simps)
  have p7: "''x'' = TrimSpace (fst (SplitN2 ''x = 2.5'' ''=''))" by (simp add: str_simps IsSpace_def)
  have p8: "''2.5'' = TrimSpace (snd (SplitN2 ''x = 2.5'' ''=''))" by (simp add: str_simps IsSpace_def)
  have p9: "evaluateExpression 10 ''2.5'' gx = Some ((Finite (5 / 2), True), gx)"
    by (simp add: eval_simps gx_def)
  have f: "is_float64 (5 / 2)" using is_float64_dyadic[of 5 1] by simp
  have r: "int64_min \<le> trunc_rat (5 / 2)" "trunc_rat (5 / 2) \<le> int64_max"
    by (simp_all add: trunc_rat_def int64_min_def int64_max_def)
  have x: "variables gx ''x'' = Some \<lparr>isInt = True, value' = Finite 5\<rparr>"
    by (simp add: gx_def start_def)
  have t: "truncate64 (Finite (5 / 2)) = Finite 2" by (simp add: num_simps)
  note T = plain_assignment[OF p1 p2 p3 p4 p5 p6 p7 p8 p9]
  from T have a: "processLine 10 ''x = 2.5;'' gx =
     Some (gx\<lparr>variables := (variables gx)(''x'' \<mapsto> \<lparr>isInt = True, value' = Finite 2\<rparr>)\<rparr>)"
    by (simp add: x t)
  from T f r have b: "truncate64 (Finite (5 / 2)) = Finite (of_int (trunc_rat (5 / 2))) \<and>
     (feq (truncate64 (Finite (5 / 2))) (Finite (5 / 2)) \<longleftrightarrow> (5 / 2 :: rat) \<in> \<int>)"
    by blast
  have n: "(5 / 2 :: rat) \<notin> \<int>"
    using trunc_rat_eq_iff[of "5 / 2"] by (simp add: trunc_rat_def)
  from p1 p2 p3 p4 p5 p6 p7 p8 p9 a f r b n show ?thesis by blast
qed

end
